theory Spec2Isabelle
  imports Complex_Main "HOL-Library.AList" "HOL-Library.Char_ord" "HOL-Library.List_Lexorder"
begin

section \<open>Python values and exceptions\<close>

text \<open>
  Every value the program handles comes out of \<^verbatim>\<open>json.loads\<close> or is a string it builds
  itself, so one datatype of JSON values stands for the Python objects: \<^verbatim>\<open>None\<close>,
  \<^verbatim>\<open>bool\<close>, numbers, \<^verbatim>\<open>str\<close>, \<^verbatim>\<open>list\<close> and \<^verbatim>\<open>dict\<close> (an association list in
  insertion order, keys being strings as JSON has them).
\<close>

datatype json =
    JNull
  | JBool bool
  | JNum real
  | JStr string
  | JArr "json list"
  | JObj "(string \<times> json) list"

text \<open>
  The exceptions the program raises itself or lets through. \<open>RuntimeError\<close> carries its
  message, since the source raises it with two different ones.
\<close>

datatype error =
    NameError string
  | KeyError string
  | TypeError
  | IndexError
  | RuntimeError string
  | CalledProcessError int
  | UnicodeDecodeError
  | JSONDecodeError
  | OSError string

subsection \<open>The operators of Python the source applies to such values\<close>

fun starts_with :: "string \<Rightarrow> string \<Rightarrow> bool" where
  "starts_with [] s = True"
| "starts_with (a # k) [] = False"
| "starts_with (a # k) (b # s) = (a = b \<and> starts_with k s)"

fun is_substring :: "string \<Rightarrow> string \<Rightarrow> bool" where
  "is_substring k [] = (k = [])"
| "is_substring k (c # cs) = (starts_with k (c # cs) \<or> is_substring k cs)"

text \<open>\<^verbatim>\<open>k in x\<close> for a string \<open>k\<close>: key membership in a dict, element membership in a list,
  substring test in a string, \<^verbatim>\<open>TypeError\<close> on anything else.\<close>

fun py_contains :: "string \<Rightarrow> json \<Rightarrow> error + bool" where
  "py_contains k (JObj kvs) = Inr (k \<in> set (map fst kvs))"
| "py_contains k (JArr xs) = Inr (JStr k \<in> set xs)"
| "py_contains k (JStr s) = Inr (is_substring k s)"
| "py_contains k JNull = Inl TypeError"
| "py_contains k (JBool b) = Inl TypeError"
| "py_contains k (JNum n) = Inl TypeError"

text \<open>\<^verbatim>\<open>x[k]\<close> for a string \<open>k\<close>: only a dict can be subscripted by a string.\<close>

fun py_getitem :: "json \<Rightarrow> string \<Rightarrow> error + json" where
  "py_getitem (JObj kvs) k = (case map_of kvs k of None \<Rightarrow> Inl (KeyError k) | Some v \<Rightarrow> Inr v)"
| "py_getitem (JArr xs) k = Inl TypeError"
| "py_getitem (JStr s) k = Inl TypeError"
| "py_getitem JNull k = Inl TypeError"
| "py_getitem (JBool b) k = Inl TypeError"
| "py_getitem (JNum n) k = Inl TypeError"

text \<open>\<^verbatim>\<open>x[k] = v\<close> for a string \<open>k\<close>; a dict keeps the position of a key it already has and
  appends a new one.\<close>

fun py_setitem :: "json \<Rightarrow> string \<Rightarrow> json \<Rightarrow> error + json" where
  "py_setitem (JObj kvs) k v = Inr (JObj (AList.update k v kvs))"
| "py_setitem (JArr xs) k v = Inl TypeError"
| "py_setitem (JStr s) k v = Inl TypeError"
| "py_setitem JNull k v = Inl TypeError"
| "py_setitem (JBool b) k v = Inl TypeError"
| "py_setitem (JNum n) k v = Inl TypeError"

text \<open>Iteration, as \<^verbatim>\<open>*x\<close> in a list display and \<^verbatim>\<open>filter(f, x)\<close> do it: the elements of a
  list, the keys of a dict, the characters of a string.\<close>

fun py_iter :: "json \<Rightarrow> error + json list" where
  "py_iter (JArr xs) = Inr xs"
| "py_iter (JObj kvs) = Inr (map (\<lambda>kv. JStr (fst kv)) kvs)"
| "py_iter (JStr s) = Inr (map (\<lambda>c. JStr [c]) s)"
| "py_iter JNull = Inl TypeError"
| "py_iter (JBool b) = Inl TypeError"
| "py_iter (JNum n) = Inl TypeError"

text \<open>\<^verbatim>\<open>str.strip()\<close>: the characters below 256 for which \<^verbatim>\<open>str.isspace\<close> holds.\<close>

definition py_isspace :: "char \<Rightarrow> bool" where
  "py_isspace c =
     (let n = (of_char c :: nat)
      in (9 \<le> n \<and> n \<le> 13) \<or> (28 \<le> n \<and> n \<le> 32) \<or> n = 133 \<or> n = 160)"

definition strip :: "string \<Rightarrow> string" where
  "strip s = rev (dropWhile py_isspace (rev (dropWhile py_isspace s)))"

section \<open>What the program runs on\<close>

text \<open>
  A subprocess is started with an argument value (the \<^verbatim>\<open>_command\<close> attribute, after a
  string has been wrapped into a one-element list), the \<^verbatim>\<open>shell\<close> flag, whether its output
  is captured, and the environment \<^verbatim>\<open>{**os.environ, **self._env}\<close>.
\<close>

record call =
  args :: json
  shell :: bool
  capture_output :: bool
  environment :: "string \<Rightarrow> json option"

text \<open>What the program does to the outside, in the order it does it.\<close>

datatype event =
    Exec call
  | Rmtree json
  | Move json json

text \<open>A subprocess either cannot be run (\<^verbatim>\<open>subprocess\<close> raises) or exits with a status and
  an output, \<open>None\<close> standing for bytes that are not UTF-8.\<close>

datatype outcome =
    Raised error
  | Exited int "string option"

text \<open>
  The parts of the Python runtime and of the machine that the source calls and does not
  define: the ambient environment, the string-valued module globals, file contents, the
  \<^verbatim>\<open>json\<close> module, \<^verbatim>\<open>str()\<close> of a value that is not a string, the order \<^verbatim>\<open>sorted\<close> gives to
  keys that are not all strings, subprocesses and the file system. The last three answer
  according to what has happened so far.
\<close>

record runtime =
  environ :: "string \<Rightarrow> string option"
  globals :: "string \<Rightarrow> string option"
  read_file :: "string \<Rightarrow> error + string"
  loads :: "string \<Rightarrow> error + json"
  dumps :: "json \<Rightarrow> string"
  py_format :: "json \<Rightarrow> string"
  sorted_other :: "(json \<times> json) list \<Rightarrow> error + json list"
  subprocess :: "event list \<Rightarrow> call \<Rightarrow> outcome"
  path_exists :: "event list \<Rightarrow> json \<Rightarrow> error + bool"
  rmtree :: "event list \<Rightarrow> json \<Rightarrow> error option"
  move :: "event list \<Rightarrow> json \<Rightarrow> json \<Rightarrow> error option"

text \<open>A computation takes the events so far and returns a value or an exception, with the
  events extended by what it did.\<close>

type_synonym 'a prog = "event list \<Rightarrow> (error + 'a) \<times> event list"

definition ret :: "'a \<Rightarrow> 'a prog" where
  "ret x t = (Inr x, t)"

definition raise :: "error \<Rightarrow> 'a prog" where
  "raise e t = (Inl e, t)"

definition lift :: "error + 'a \<Rightarrow> 'a prog" where
  "lift r t = (r, t)"

definition bind :: "'a prog \<Rightarrow> ('a \<Rightarrow> 'b prog) \<Rightarrow> 'b prog" where
  "bind m f t = (case m t of (Inl e, t') \<Rightarrow> (Inl e, t') | (Inr x, t') \<Rightarrow> f x t')"

text \<open>An f-string field: a string is inserted as it is.\<close>

definition fstr :: "runtime \<Rightarrow> json \<Rightarrow> string" where
  "fstr rt v = (case v of JStr s \<Rightarrow> s | _ \<Rightarrow> py_format rt v)"

definition ebind :: "error + 'a \<Rightarrow> ('a \<Rightarrow> error + 'b) \<Rightarrow> error + 'b" where
  "ebind r f = (case r of Inl e \<Rightarrow> Inl e | Inr x \<Rightarrow> f x)"

section \<open>Command: the command executor\<close>

text \<open>\<^verbatim>\<open>Command.__init__\<close>: a command given as one string becomes a one-element list.\<close>

definition Command_init :: "json \<Rightarrow> json" where
  "Command_init command = (case command of JStr s \<Rightarrow> JArr [JStr s] | _ \<Rightarrow> command)"

text \<open>\<^verbatim>\<open>{**os.environ, **self._env}\<close>\<close>

definition merged_env :: "runtime \<Rightarrow> (string \<times> json) list \<Rightarrow> string \<Rightarrow> json option" where
  "merged_env rt env k =
     (case map_of env k of Some v \<Rightarrow> Some v | None \<Rightarrow> map_option JStr (environ rt k))"

definition mk_call :: "runtime \<Rightarrow> json \<Rightarrow> (string \<times> json) list \<Rightarrow> bool \<Rightarrow> bool \<Rightarrow> call" where
  "mk_call rt command env sh cap =
     \<lparr>args = command, shell = sh, capture_output = cap, environment = merged_env rt env\<rparr>"

text \<open>\<^verbatim>\<open>Command.capture\<close>: \<^verbatim>\<open>check_output\<close> raises on a status other than 0, the output is
  decoded, and stripped when \<open>trim\<close> is set.\<close>

definition Command_capture ::
  "runtime \<Rightarrow> json \<Rightarrow> (string \<times> json) list \<Rightarrow> bool \<Rightarrow> bool \<Rightarrow> string prog" where
  "Command_capture rt command env sh trim t =
     (let c = mk_call rt command env sh True
      in case subprocess rt t c of
           Raised e \<Rightarrow> (Inl e, t @ [Exec c])
         | Exited st out \<Rightarrow>
             if st \<noteq> 0 then (Inl (CalledProcessError st), t @ [Exec c])
             else (case out of
                     None \<Rightarrow> (Inl UnicodeDecodeError, t @ [Exec c])
                   | Some s \<Rightarrow> (Inr (if trim then strip s else s), t @ [Exec c])))"

text \<open>\<^verbatim>\<open>Command.display\<close>: the output goes to the terminal, \<^verbatim>\<open>check_returncode\<close> raises on a
  status other than 0.\<close>

definition Command_display ::
  "runtime \<Rightarrow> json \<Rightarrow> (string \<times> json) list \<Rightarrow> bool \<Rightarrow> unit prog" where
  "Command_display rt command env sh t =
     (let c = mk_call rt command env sh False
      in case subprocess rt t c of
           Raised e \<Rightarrow> (Inl e, t @ [Exec c])
         | Exited st out \<Rightarrow>
             if st \<noteq> 0 then (Inl (CalledProcessError st), t @ [Exec c])
             else (Inr (), t @ [Exec c]))"

section \<open>Dialog: the user dialogs\<close>

definition truefalse_command :: "string \<Rightarrow> string \<Rightarrow> string \<Rightarrow> bool \<Rightarrow> json" where
  "truefalse_command question true false dflt =
     JArr (map JStr
       [''dialog'', ''--stdout'', ''--clear'',
        ''--yes-label'', true, ''--no-label'', false,
        ''--default-button'', (if dflt then true else false),
        ''--yesno'', question, ''0'', ''0''])"

definition input_command :: "string \<Rightarrow> string \<Rightarrow> string \<Rightarrow> bool \<Rightarrow> json" where
  "input_command dialog true false dflt =
     JArr (map JStr
       [''dialog'', ''--stdout'', ''--clear'',
        ''--ok-label'', true, ''--cancel-label'', false,
        ''--default-button'', (if dflt then true else false),
        ''--inputbox'', dialog, ''0'', ''0''])"

definition info_command :: "string \<Rightarrow> json" where
  "info_command info =
     JArr (map JStr [''dialog'', ''--stdout'', ''--infobox'', info, ''0'', ''0''])"

text \<open>\<^verbatim>\<open>Dialog.truefalse\<close>: any exception of the capture is the answer \<^verbatim>\<open>False\<close>.\<close>

definition Dialog_truefalse ::
  "runtime \<Rightarrow> string \<Rightarrow> string \<Rightarrow> string \<Rightarrow> bool \<Rightarrow> bool prog" where
  "Dialog_truefalse rt question true false dflt t =
     (case Command_capture rt (Command_init (truefalse_command question true false dflt))
             [] False True t of
        (Inl e, t') \<Rightarrow> (Inr False, t')
      | (Inr s, t') \<Rightarrow> (Inr True, t'))"

text \<open>\<^verbatim>\<open>Dialog.input\<close>: any exception of the capture becomes the cancellation error.\<close>

definition Dialog_input ::
  "runtime \<Rightarrow> string \<Rightarrow> string \<Rightarrow> string \<Rightarrow> bool \<Rightarrow> string prog" where
  "Dialog_input rt dialog true false dflt t =
     (case Command_capture rt (Command_init (input_command dialog true false dflt))
             [] False True t of
        (Inl e, t') \<Rightarrow> (Inl (RuntimeError ''Action cancelled by user''), t')
      | (Inr s, t') \<Rightarrow> (Inr s, t'))"

definition Dialog_info :: "runtime \<Rightarrow> string \<Rightarrow> unit prog" where
  "Dialog_info rt info =
     bind (Command_capture rt (Command_init (info_command info)) [] False True) (\<lambda>s. ret ())"

section \<open>Config: the configuration\<close>

text \<open>The assignment \<^verbatim>\<open>self._config[section][name] = value\<close>. The dict of the section is
  changed in place; here the changed section is put back where it was in the document.\<close>

definition store_field :: "json \<Rightarrow> string \<Rightarrow> string \<Rightarrow> json \<Rightarrow> error + json" where
  "store_field config section name v =
     ebind (py_getitem config section) (\<lambda>sec.
     ebind (py_setitem sec name v) (\<lambda>sec'.
     py_setitem config section sec'))"

definition field_prompt :: "string \<Rightarrow> string \<Rightarrow> string" where
  \<open>field_prompt section name = ''Enter value for "'' @ section @ ''->'' @ name @ ''":''\<close>

text \<open>\<^verbatim>\<open>Config._eval_field\<close>\<close>

definition Config_eval_field :: "runtime \<Rightarrow> json \<Rightarrow> string \<Rightarrow> string \<Rightarrow> json prog" where
  "Config_eval_field rt config section name =
     bind (lift (py_getitem config section)) (\<lambda>sec.
     bind (lift (py_contains name sec)) (\<lambda>has.
       if has then ret config
       else
         bind (lift (py_getitem config section)) (\<lambda>sec.
         bind (lift (py_contains (name @ ''_command'') sec)) (\<lambda>has_command.
           if has_command then
             bind (lift (py_getitem config section)) (\<lambda>sec.
             bind (lift (py_getitem sec (name @ ''_command''))) (\<lambda>command.
             bind (Command_capture rt (Command_init command) [] True True) (\<lambda>v.
             lift (store_field config section name (JStr v)))))
           else
             bind (Dialog_input rt (field_prompt section name) ''Ok'' ''Cancel'' False) (\<lambda>v.
             lift (store_field config section name (JStr v)))))))"

text \<open>\<^verbatim>\<open>Config.__init__\<close>, first part: the choice of the source. The first branch reads the
  name \<^verbatim>\<open>env\<close>, which is neither a local nor a global nor a builtin; the second opens the
  file named by \<open>env_file\<close> itself.\<close>

definition Config_source :: "runtime \<Rightarrow> string \<Rightarrow> string \<Rightarrow> string \<Rightarrow> json prog" where
  "Config_source rt env_json env_file var =
     (if environ rt env_json \<noteq> None then raise (NameError ''env'')
      else if environ rt env_file \<noteq> None then
        bind (lift (read_file rt env_file)) (\<lambda>config_json. lift (loads rt config_json))
      else (case globals rt var of
              Some text \<Rightarrow> lift (loads rt text)
            | None \<Rightarrow>
                raise (RuntimeError ''No configuration in environment or global namespace'')))"

text \<open>\<^verbatim>\<open>Config.__init__\<close>: the source, then the two command fields.\<close>

definition Config_init :: "runtime \<Rightarrow> string \<Rightarrow> string \<Rightarrow> string \<Rightarrow> json prog" where
  "Config_init rt env_json env_file var =
     bind (Config_source rt env_json env_file var) (\<lambda>config.
     bind (Config_eval_field rt config ''restic'' ''pass'') (\<lambda>config.
     Config_eval_field rt config ''s3'' ''pass''))"

text \<open>\<^verbatim>\<open>Config()\<close>, as every caller writes it.\<close>

definition Config :: "runtime \<Rightarrow> json prog" where
  "Config rt = Config_init rt ''RESTIC_EZ_CONFIG'' ''RESTIC_EZ_CONFIG_FILE'' ''CONFIG''"

definition Config_get_directory :: "json \<Rightarrow> error + json" where
  "Config_get_directory config = py_getitem config ''directory''"

definition Config_get_restic_flags :: "json \<Rightarrow> string \<Rightarrow> error + json" where
  "Config_get_restic_flags config context =
     ebind (py_getitem config ''restic'') (\<lambda>sec.
     ebind (py_contains (''flags_'' @ context) sec) (\<lambda>has.
       if has then
         ebind (py_getitem config ''restic'') (\<lambda>sec. py_getitem sec (''flags_'' @ context))
       else Inr (JArr [])))"

text \<open>\<^verbatim>\<open>Config.env\<close>: the entries in the order the dict display evaluates them.\<close>

definition Config_env :: "runtime \<Rightarrow> json \<Rightarrow> error + (string \<times> json) list" where
  "Config_env rt config =
     (let dumped = dumps rt config in
      ebind (Config_get_directory config) (\<lambda>directory.
      ebind (py_getitem config ''restic'') (\<lambda>sec. ebind (py_getitem sec ''pass'') (\<lambda>restic_pass.
      ebind (py_getitem config ''restic'') (\<lambda>sec. ebind (py_getitem sec ''repo'') (\<lambda>restic_repo.
      ebind (py_getitem config ''s3'') (\<lambda>sec. ebind (py_getitem sec ''user'') (\<lambda>s3_user.
      ebind (py_getitem config ''s3'') (\<lambda>sec. ebind (py_getitem sec ''pass'') (\<lambda>s3_pass.
      Inr [(''RESTIC_EZ_CONFIG'', JStr dumped),
           (''DIRECTORY'', directory),
           (''RESTIC_PASSWORD'', restic_pass),
           (''RESTIC_REPOSITORY'', restic_repo),
           (''AWS_ACCESS_KEY_ID'', s3_user),
           (''AWS_SECRET_ACCESS_KEY'', s3_pass)]))))))))))"

section \<open>Restic: the restic API\<close>

text \<open>\<^verbatim>\<open>sep.join(xs)\<close>\<close>

fun join :: "string \<Rightarrow> string list \<Rightarrow> string" where
  "join sep [] = []"
| "join sep [x] = x"
| "join sep (x # y # ys) = x @ sep @ join sep (y # ys)"

text \<open>\<^verbatim>\<open>filter\<close> and the computation of the keys of \<^verbatim>\<open>sorted\<close>, with a function that may
  raise: the first exception, in the order of the elements, ends the traversal.\<close>

fun filter_e :: "('a \<Rightarrow> error + bool) \<Rightarrow> 'a list \<Rightarrow> error + 'a list" where
  "filter_e p [] = Inr []"
| "filter_e p (x # xs) =
     ebind (p x) (\<lambda>b. ebind (filter_e p xs) (\<lambda>ys. Inr (if b then x # ys else ys)))"

fun map_e :: "('a \<Rightarrow> error + 'b) \<Rightarrow> 'a list \<Rightarrow> error + 'b list" where
  "map_e f [] = Inr []"
| "map_e f (x # xs) = ebind (f x) (\<lambda>y. ebind (map_e f xs) (\<lambda>ys. Inr (y # ys)))"

fun is_str :: "json \<Rightarrow> bool" where
  "is_str (JStr s) = True"
| "is_str JNull = False"
| "is_str (JBool b) = False"
| "is_str (JNum n) = False"
| "is_str (JArr xs) = False"
| "is_str (JObj kvs) = False"

fun str_of :: "json \<Rightarrow> string" where
  "str_of (JStr s) = s"
| "str_of JNull = []"
| "str_of (JBool b) = []"
| "str_of (JNum n) = []"
| "str_of (JArr xs) = []"
| "str_of (JObj kvs) = []"

text \<open>
  \<^verbatim>\<open>sorted(xs, key=f)\<close>: all keys are computed first; fewer than two elements are never
  compared; string keys are compared by code point, lexicographically, and the sort is
  stable. Keys that are not all strings are left to the runtime.
\<close>

definition py_sorted ::
  "runtime \<Rightarrow> (json \<Rightarrow> error + json) \<Rightarrow> json list \<Rightarrow> error + json list" where
  "py_sorted rt f xs =
     ebind (map_e f xs) (\<lambda>ks.
       if length xs \<le> 1 then Inr xs
       else if list_all is_str ks then
         Inr (map snd (sort_key (\<lambda>kx. str_of (fst kx)) (zip ks xs)))
       else sorted_other rt (zip ks xs))"

text \<open>\<^verbatim>\<open>Restic._list\<close>\<close>

definition Restic_list :: "runtime \<Rightarrow> json \<Rightarrow> json prog" where
  "Restic_list rt config =
     bind (lift (Config_get_restic_flags config ''list'')) (\<lambda>flags.
     bind (lift (py_iter flags)) (\<lambda>flags.
     bind (lift (Config_env rt config)) (\<lambda>env.
     bind (Command_capture rt
             (Command_init (JArr ([JStr ''restic'', JStr ''snapshots'', JStr ''--json''] @ flags)))
             env False True) (\<lambda>result_json.
     lift (loads rt result_json)))))"

text \<open>\<^verbatim>\<open>Restic.create\<close>\<close>

definition Restic_create :: "runtime \<Rightarrow> json \<Rightarrow> string list \<Rightarrow> unit prog" where
  "Restic_create rt config tags =
     bind (lift (Config_get_restic_flags config ''backup'')) (\<lambda>flags.
     bind (lift (py_iter flags)) (\<lambda>flags.
     bind (lift (Config_get_directory config)) (\<lambda>directory.
     bind (lift (Config_env rt config)) (\<lambda>env.
     Command_display rt
       (Command_init
          (JArr ([JStr ''restic'', JStr ''backup'', JStr ''--tag'', JStr (join '','' tags)]
                 @ flags @ [directory])))
       env False))))"

text \<open>The choice of the archive in \<^verbatim>\<open>Restic.restore\<close> when no id is given: the three
  assignments to \<^verbatim>\<open>archives\<close> after the listing, and \<^verbatim>\<open>archives[-1]["id"]\<close>.\<close>

definition latest_id :: "runtime \<Rightarrow> json \<Rightarrow> error + json" where
  "latest_id rt archives =
     ebind (py_iter archives) (\<lambda>xs.
     ebind (filter_e
              (\<lambda>a. ebind (py_getitem a ''tags'') (\<lambda>tags.
                    ebind (py_contains ''snapshot'' tags) (\<lambda>b. Inr (\<not> b))))
              xs) (\<lambda>kept.
     ebind (py_sorted rt (\<lambda>a. py_getitem a ''time'') kept) (\<lambda>archives.
       if archives = [] then Inl IndexError else py_getitem (last archives) ''id'')))"

text \<open>\<^verbatim>\<open>Restic.restore\<close>; \<open>ident\<close> is the parameter \<^verbatim>\<open>id\<close>, \<open>None\<close> its default.\<close>

definition Restic_restore :: "runtime \<Rightarrow> json \<Rightarrow> string \<Rightarrow> json option \<Rightarrow> unit prog" where
  "Restic_restore rt config tmpdir ident =
     bind (case ident of
             None \<Rightarrow> bind (Restic_list rt config) (\<lambda>archives. lift (latest_id rt archives))
           | Some i \<Rightarrow> ret i) (\<lambda>ident.
     bind (lift (Config_get_restic_flags config ''restore'')) (\<lambda>flags.
     bind (lift (py_iter flags)) (\<lambda>flags.
     bind (lift (Config_env rt config)) (\<lambda>env.
     Command_display rt
       (Command_init
          (JArr ([JStr ''restic'', JStr ''restore'', JStr ''--target'', JStr tmpdir]
                 @ flags @ [ident])))
       env False))))"

section \<open>The restore command\<close>

definition do_rmtree :: "runtime \<Rightarrow> json \<Rightarrow> unit prog" where
  "do_rmtree rt path t =
     (case rmtree rt t path of
        None \<Rightarrow> (Inr (), t @ [Rmtree path])
      | Some e \<Rightarrow> (Inl e, t @ [Rmtree path]))"

definition do_move :: "runtime \<Rightarrow> json \<Rightarrow> json \<Rightarrow> unit prog" where
  "do_move rt src dst t =
     (case move rt t src dst of
        None \<Rightarrow> (Inr (), t @ [Move src dst])
      | Some e \<Rightarrow> (Inl e, t @ [Move src dst]))"

definition do_exists :: "runtime \<Rightarrow> json \<Rightarrow> bool prog" where
  "do_exists rt path t = (path_exists rt t path, t)"

definition delete_question :: "runtime \<Rightarrow> json \<Rightarrow> string" where
  \<open>delete_question rt directory = ''Delete "'' @ fstr rt directory @ ''"?''\<close>

text \<open>
  \<^verbatim>\<open>restore()\<close> has two blocks. The first, under \<^verbatim>\<open>if os.path.exists(...)\<close>, snapshots and
  deletes the existing directory; the second restores the archive and moves it into the
  final location. Every \<^verbatim>\<open>config.get_directory()\<close> of the source is one lookup here.
\<close>

definition snapshot_and_delete :: "runtime \<Rightarrow> json \<Rightarrow> unit prog" where
  "snapshot_and_delete rt config =
     bind (Dialog_info rt ''Creating snapshot archive...'') (\<lambda>u.
     bind (Restic_create rt config [''snapshot'']) (\<lambda>u.
     bind (lift (Config_get_directory config)) (\<lambda>d.
     bind (Dialog_truefalse rt (delete_question rt d) ''Delete directory'' ''Cancel'' False)
       (\<lambda>confirmed.
     if \<not> confirmed then raise (RuntimeError ''Action cancelled by user'')
     else
       bind (lift (Config_get_directory config)) (\<lambda>d. do_rmtree rt d)))))"

definition restore_and_move :: "runtime \<Rightarrow> json \<Rightarrow> unit prog" where
  "restore_and_move rt config =
     bind (Dialog_info rt ''Restoring latest archive (this may take some time)...'') (\<lambda>u.
     bind (lift (Config_get_directory config)) (\<lambda>d.
     bind (Restic_restore rt config (fstr rt d @ ''.restic-restore'') None) (\<lambda>u.
     bind (Dialog_info rt ''Moving restored directory into final location...'') (\<lambda>u.
     bind (lift (Config_get_directory config)) (\<lambda>d1.
     bind (lift (Config_get_directory config)) (\<lambda>d2.
     bind (lift (Config_get_directory config)) (\<lambda>d3.
     bind (do_move rt (JStr (fstr rt d1 @ ''.restic-restore/'' @ fstr rt d2)) d3) (\<lambda>u.
     bind (lift (Config_get_directory config)) (\<lambda>d.
     do_rmtree rt (JStr (fstr rt d @ ''.restic-restore'')))))))))))"

text \<open>The body of \<^verbatim>\<open>restore()\<close> after \<^verbatim>\<open>config = Config()\<close>.\<close>

definition restore_steps :: "runtime \<Rightarrow> json \<Rightarrow> unit prog" where
  "restore_steps rt config =
     bind (lift (Config_get_directory config)) (\<lambda>d.
     bind (do_exists rt d) (\<lambda>present.
     bind (if present then snapshot_and_delete rt config else ret ()) (\<lambda>u.
     restore_and_move rt config)))"

text \<open>\<^verbatim>\<open>restore()\<close>\<close>

definition restore :: "runtime \<Rightarrow> unit prog" where
  "restore rt = bind (Config rt) (\<lambda>config. restore_steps rt config)"

section \<open>The data model of the specification\<close>

text \<open>
  The archive record of the specification: identifier, creation timestamp, tags. Strings
  are ordered as Python orders them, character by character, a proper prefix first.
\<close>

record archive =
  a_id :: string
  a_time :: string
  a_tags :: "string list"

text \<open>The selection as the specification words it: drop every archive tagged
  \<^verbatim>\<open>snapshot\<close>, sort the remainder by timestamp ascending, take the last.\<close>

definition spec_latest :: "archive list \<Rightarrow> archive option" where
  "spec_latest archives =
     (let remainder = filter (\<lambda>a. ''snapshot'' \<notin> set (a_tags a)) archives;
          ordered = sort_key a_time remainder
      in if ordered = [] then None else Some (last ordered))"

text \<open>Reading a record off an element of the listing, and the elements that carry one.\<close>

fun elements :: "json \<Rightarrow> json list" where
  "elements (JArr xs) = xs"
| "elements JNull = []"
| "elements (JBool b) = []"
| "elements (JNum n) = []"
| "elements (JStr s) = []"
| "elements (JObj kvs) = []"

definition field :: "json \<Rightarrow> string \<Rightarrow> json" where
  "field j k = (case py_getitem j k of Inl e \<Rightarrow> JNull | Inr v \<Rightarrow> v)"

fun is_str_array :: "json \<Rightarrow> bool" where
  "is_str_array (JArr xs) = list_all is_str xs"
| "is_str_array JNull = False"
| "is_str_array (JBool b) = False"
| "is_str_array (JNum n) = False"
| "is_str_array (JStr s) = False"
| "is_str_array (JObj kvs) = False"

definition is_archive :: "json \<Rightarrow> bool" where
  "is_archive j =
     (is_str (field j ''id'') \<and> is_str (field j ''time'') \<and> is_str_array (field j ''tags''))"

definition decode :: "json \<Rightarrow> archive" where
  "decode j = \<lparr>a_id = str_of (field j ''id''), a_time = str_of (field j ''time''),
               a_tags = map str_of (elements (field j ''tags''))\<rparr>"

definition archive_json :: "string \<Rightarrow> string \<Rightarrow> string list \<Rightarrow> json" where
  "archive_json i t ts =
     JObj [(''time'', JStr t), (''tags'', JArr (map JStr ts)), (''id'', JStr i)]"



text \<open>The user accepts a yes/no dialog when it exits with status 0 and readable output;
  everything else is taken as a refusal by \<^verbatim>\<open>Dialog.truefalse\<close>.\<close>

fun accepted :: "outcome \<Rightarrow> bool" where
  "accepted (Exited st out) = (st = 0 \<and> out \<noteq> None)"
| "accepted (Raised e) = False"

section \<open>The processes of the restore command, by name\<close>

definition info_call :: "runtime \<Rightarrow> string \<Rightarrow> call" where
  "info_call rt info = mk_call rt (info_command info) [] False True"

definition confirm_call :: "runtime \<Rightarrow> json \<Rightarrow> call" where
  "confirm_call rt directory =
     mk_call rt (truefalse_command (delete_question rt directory) ''Delete directory'' ''Cancel'' False)
       [] False True"

definition backup_call ::
  "runtime \<Rightarrow> string list \<Rightarrow> json list \<Rightarrow> json \<Rightarrow> (string \<times> json) list \<Rightarrow> call" where
  "backup_call rt tags flags directory env =
     mk_call rt
       (JArr ([JStr ''restic'', JStr ''backup'', JStr ''--tag'', JStr (join '','' tags)]
              @ flags @ [directory]))
       env False False"

definition list_call :: "runtime \<Rightarrow> json list \<Rightarrow> (string \<times> json) list \<Rightarrow> call" where
  "list_call rt flags env =
     mk_call rt (JArr ([JStr ''restic'', JStr ''snapshots'', JStr ''--json''] @ flags)) env False True"

definition restore_call ::
  "runtime \<Rightarrow> string \<Rightarrow> json list \<Rightarrow> json \<Rightarrow> (string \<times> json) list \<Rightarrow> call" where
  "restore_call rt tmpdir flags ident env =
     mk_call rt
       (JArr ([JStr ''restic'', JStr ''restore'', JStr ''--target'', JStr tmpdir] @ flags @ [ident]))
       env False False"

section \<open>Events are only ever added\<close>

definition grows :: "'a prog \<Rightarrow> bool" where
  "grows m = (\<forall>t r t'. m t = (r, t') \<longrightarrow> (\<exists>es. t' = t @ es))"

section \<open>A concrete run\<close>

text \<open>
  One machine to run the definitions on. The document comes from the global
  \<^verbatim>\<open>CONFIG\<close>; it gives the restic password by a command and has no S3 password. The
  repository holds three archives, the second one a snapshot. The managed directory
  exists, and the user answers the delete question with no.
\<close>

definition demo_document :: json where
  "demo_document =
     JObj [(''directory'', JStr ''/d''),
           (''restic'', JObj [(''pass_command'', JStr ''cat /run/restic.key''),
                              (''repo'', JStr ''r''),
                              (''flags_backup'', JArr [JStr ''--verbose''])]),
           (''s3'', JObj [(''user'', JStr ''u'')])]"

definition demo_document_text :: string where
  \<open>demo_document_text =
     ''{"directory": "/d", "restic": {"pass_command": "cat /run/restic.key", "repo": "r", "flags_backup": ["--verbose"]}, "s3": {"user": "u"}}''\<close>

text \<open>The document after the restic password has been filled in, and the resolved one.\<close>

definition demo_midway :: json where
  "demo_midway =
     JObj [(''directory'', JStr ''/d''),
           (''restic'', JObj [(''pass_command'', JStr ''cat /run/restic.key''),
                              (''repo'', JStr ''r''),
                              (''flags_backup'', JArr [JStr ''--verbose'']),
                              (''pass'', JStr ''p'')]),
           (''s3'', JObj [(''user'', JStr ''u'')])]"

definition demo_config :: json where
  "demo_config =
     JObj [(''directory'', JStr ''/d''),
           (''restic'', JObj [(''pass_command'', JStr ''cat /run/restic.key''),
                              (''repo'', JStr ''r''),
                              (''flags_backup'', JArr [JStr ''--verbose'']),
                              (''pass'', JStr ''p'')]),
           (''s3'', JObj [(''user'', JStr ''u''), (''pass'', JStr ''p2'')])]"

definition demo_config_text :: string where
  \<open>demo_config_text =
     ''{"directory": "/d", "restic": {"pass_command": "cat /run/restic.key", "repo": "r", "flags_backup": ["--verbose"], "pass": "p"}, "s3": {"user": "u", "pass": "p2"}}''\<close>

definition demo_listing :: json where
  "demo_listing =
     JArr [archive_json ''a'' ''2024-01-01'' [''backup''],
           archive_json ''b'' ''2024-02-01'' [''snapshot''],
           archive_json ''c'' ''2024-03-01'' [''backup'']]"

definition demo_listing_text :: string where
  \<open>demo_listing_text =
     ''[{"time": "2024-01-01", "tags": ["backup"], "id": "a"}, {"time": "2024-02-01", "tags": ["snapshot"], "id": "b"}, {"time": "2024-03-01", "tags": ["backup"], "id": "c"}]''\<close>

definition demo_subprocess :: "event list \<Rightarrow> call \<Rightarrow> outcome" where
  "demo_subprocess t c =
     (let argv = elements (args c)
      in if shell c then Exited 0 (Some (''p'' @ [CHR 0x0A]))
         else if JStr ''--yesno'' \<in> set argv then Exited 1 (Some [])
         else if JStr ''--inputbox'' \<in> set argv then Exited 0 (Some ''p2'')
         else if JStr ''snapshots'' \<in> set argv then Exited 0 (Some demo_listing_text)
         else Exited 0 (Some []))"

definition demo_runtime :: runtime where
  "demo_runtime =
     \<lparr>environ = Map.empty,
      globals = [''CONFIG'' \<mapsto> demo_document_text],
      read_file = (\<lambda>p. Inl (OSError ''No such file or directory'')),
      loads = (\<lambda>s. if s = demo_document_text then Inr demo_document
                    else if s = demo_config_text then Inr demo_config
                    else if s = demo_listing_text then Inr demo_listing
                    else Inl JSONDecodeError),
      dumps = (\<lambda>j. if j = demo_config then demo_config_text else []),
      py_format = (\<lambda>j. []),
      sorted_other = (\<lambda>kxs. Inl TypeError),
      subprocess = demo_subprocess,
      path_exists = (\<lambda>t p. Inr True),
      rmtree = (\<lambda>t p. None),
      move = (\<lambda>t src dst. None)\<rparr>"

text \<open>The environment the resolved configuration gives to the processes.\<close>

definition demo_env :: "(string \<times> json) list" where
  "demo_env =
     [(''RESTIC_EZ_CONFIG'', JStr demo_config_text),
      (''DIRECTORY'', JStr ''/d''),
      (''RESTIC_PASSWORD'', JStr ''p''),
      (''RESTIC_REPOSITORY'', JStr ''r''),
      (''AWS_ACCESS_KEY_ID'', JStr ''u''),
      (''AWS_SECRET_ACCESS_KEY'', JStr ''p2'')]"

text \<open>The two processes that resolve the secrets of the document.\<close>

definition secret_call :: "runtime \<Rightarrow> call" where
  "secret_call rt = mk_call rt (JArr [JStr ''cat /run/restic.key'']) [] True True"

definition prompt_call :: "runtime \<Rightarrow> call" where
  "prompt_call rt =
     mk_call rt (input_command (field_prompt ''s3'' ''pass'') ''Ok'' ''Cancel'' False) [] False True"

text \<open>The same machine without the managed directory.\<close>

definition demo_absent :: runtime where
  "demo_absent = demo_runtime\<lparr>path_exists := (\<lambda>t p. Inr False)\<rparr>"

text \<open>The same machine with a repository of snapshots only.\<close>

definition snapshots_only :: json where
  "snapshots_only =
     JArr [archive_json ''s1'' ''2024-01-01'' [''snapshot''],
           archive_json ''s2'' ''2024-02-01'' [''snapshot'']]"

definition demo_snapshots_only :: runtime where
  "demo_snapshots_only =
     demo_runtime\<lparr>loads := (\<lambda>s. if s = demo_listing_text then Inr snapshots_only
                                else Inl JSONDecodeError)\<rparr>"

text \<open>A process started with the environment \<open>env\<close> on top of the ambient one, as
  \<^verbatim>\<open>Command\<close> starts it: what it finds in \<^verbatim>\<open>os.environ\<close>.\<close>

definition child_runtime :: "runtime \<Rightarrow> (string \<times> json) list \<Rightarrow> runtime" where
  "child_runtime rt env = rt\<lparr>environ := (\<lambda>k. map_option str_of (merged_env rt env k))\<rparr>"

text \<open>A machine whose environment gives the document inline, and one whose environment
  gives the path of a file holding it.\<close>

definition demo_inline :: runtime where
  "demo_inline = demo_runtime\<lparr>environ := [''RESTIC_EZ_CONFIG'' \<mapsto> demo_config_text]\<rparr>"

definition demo_file :: runtime where
  "demo_file =
     demo_runtime
       \<lparr>environ := [''RESTIC_EZ_CONFIG_FILE'' \<mapsto> ''/etc/restic-ez.json''],
        read_file := (\<lambda>p. if p = ''/etc/restic-ez.json'' then Inr demo_config_text
                           else Inl (OSError ''No such file or directory''))\<rparr>"

section \<open>Properties\<close>

subsection \<open>Auxiliary facts\<close>

subsubsection \<open>Archive records in the listing\<close>

lemma ebind_simps [simp]: "ebind (Inl e) f = Inl e" "ebind (Inr x) f = f x"
  by (simp_all add: ebind_def)

lemma str_member: "list_all is_str ts \<Longrightarrow> (JStr s \<in> set ts) = (s \<in> set (map str_of ts))"
proof (induction ts)
  case Nil
  then show ?case by simp
next
  case (Cons x ts)
  then show ?case by (cases x) auto
qed

lemma is_str_eq: "is_str v \<Longrightarrow> v = JStr (str_of v)"
  by (cases v) simp_all

lemma is_str_array_eq: "is_str_array v \<Longrightarrow> v = JArr (elements v) \<and> list_all is_str (elements v)"
  by (cases v) simp_all

lemma field_getitem: "field j k \<noteq> JNull \<Longrightarrow> py_getitem j k = Inr (field j k)"
  by (simp add: field_def split: sum.splits)

lemma is_archive_fields:
  assumes "is_archive j"
  shows "py_getitem j ''id'' = Inr (JStr (a_id (decode j)))"
    and "py_getitem j ''time'' = Inr (JStr (a_time (decode j)))"
    and "\<exists>ts. py_getitem j ''tags'' = Inr (JArr ts) \<and> list_all is_str ts \<and> a_tags (decode j) = map str_of ts"
proof -
  have i: "is_str (field j ''id'')" and t: "is_str (field j ''time'')"
    and g: "is_str_array (field j ''tags'')"
    using assms by (simp_all add: is_archive_def)
  have "field j ''id'' \<noteq> JNull" using i by auto
  then show "py_getitem j ''id'' = Inr (JStr (a_id (decode j)))"
    using is_str_eq [OF i] by (simp add: field_getitem decode_def)
  have "field j ''time'' \<noteq> JNull" using t by auto
  then show "py_getitem j ''time'' = Inr (JStr (a_time (decode j)))"
    using is_str_eq [OF t] by (simp add: field_getitem decode_def)
  have "field j ''tags'' \<noteq> JNull" using g by auto
  then have "py_getitem j ''tags'' = Inr (JArr (elements (field j ''tags'')))"
    using is_str_array_eq [OF g] by (simp add: field_getitem)
  moreover have "list_all is_str (elements (field j ''tags''))"
    using is_str_array_eq [OF g] by simp
  moreover have "a_tags (decode j) = map str_of (elements (field j ''tags''))"
    by (simp add: decode_def)
  ultimately show "\<exists>ts. py_getitem j ''tags'' = Inr (JArr ts) \<and> list_all is_str ts \<and> a_tags (decode j) = map str_of ts"
    by blast
qed

lemma keep_archive:
  assumes "is_archive j"
  shows "ebind (py_getitem j ''tags'') (\<lambda>tags. ebind (py_contains ''snapshot'' tags) (\<lambda>b. Inr (\<not> b)))
         = Inr (''snapshot'' \<notin> set (a_tags (decode j)))"
proof -
  obtain ts where ts: "py_getitem j ''tags'' = Inr (JArr ts)" "list_all is_str ts"
    "a_tags (decode j) = map str_of ts"
    using is_archive_fields(3) [OF assms] by blast
  show ?thesis using ts str_member [OF ts(2), of "''snapshot''"] by simp
qed

lemma filter_e_archives:
  "list_all is_archive js \<Longrightarrow>
   filter_e (\<lambda>a. ebind (py_getitem a ''tags'') (\<lambda>tags. ebind (py_contains ''snapshot'' tags) (\<lambda>b. Inr (\<not> b)))) js
   = Inr (filter (\<lambda>j. ''snapshot'' \<notin> set (a_tags (decode j))) js)"
  by (induction js) (simp_all add: keep_archive)

lemma map_e_time:
  "list_all is_archive js \<Longrightarrow>
   map_e (\<lambda>a. py_getitem a ''time'') js = Inr (map (\<lambda>j. JStr (a_time (decode j))) js)"
  by (induction js) (simp_all add: is_archive_fields(2))

lemma insort_key_map:
  "insort_key k (h x) (map h xs) = map h (insort_key (\<lambda>y. k (h y)) x xs)"
  by (induction xs) simp_all

lemma sort_key_map: "sort_key k (map h xs) = map h (sort_key (\<lambda>y. k (h y)) xs)"
  by (induction xs) (simp_all add: insort_key_map)

lemma sort_decorated:
  "map snd (sort_key (\<lambda>kx. f (fst kx)) (zip (map g xs) xs)) = sort_key (\<lambda>x. f (g x)) xs"
proof -
  have "zip (map g xs) xs = map (\<lambda>x. (g x, x)) xs"
    by (induction xs) simp_all
  then show ?thesis by (simp add: sort_key_map comp_def)
qed

lemma sort_key_short: "length xs \<le> 1 \<Longrightarrow> sort_key f xs = xs"
  by (cases xs) (auto simp: le_Suc_eq)

lemma py_sorted_archives:
  assumes "list_all is_archive js"
  shows "py_sorted rt (\<lambda>a. py_getitem a ''time'') js = Inr (sort_key (\<lambda>j. a_time (decode j)) js)"
proof -
  have "list_all is_str (map (\<lambda>j. JStr (a_time (decode j))) js)"
    by (induction js) simp_all
  then show ?thesis
    by (simp add: py_sorted_def map_e_time [OF assms] sort_decorated sort_key_short)
qed

text \<open>The archive the specification selects is one that is no snapshot, and no other such
  archive has a later timestamp.\<close>

lemma sorted_le_last: "sorted xs \<Longrightarrow> x \<in> set xs \<Longrightarrow> x \<le> last xs"
  by (induction xs) auto

lemma spec_latest_most_recent:
  assumes "spec_latest archives = Some a"
  shows "a \<in> set archives \<and> ''snapshot'' \<notin> set (a_tags a)
       \<and> (\<forall>b \<in> set archives. ''snapshot'' \<notin> set (a_tags b) \<longrightarrow> a_time b \<le> a_time a)"
proof -
  let ?keep = "filter (\<lambda>a. ''snapshot'' \<notin> set (a_tags a)) archives"
  let ?ord = "sort_key a_time ?keep"
  have ne: "?ord \<noteq> []" and a: "a = last ?ord"
    using assms by (simp_all add: spec_latest_def Let_def split: if_splits)
  have "last ?ord \<in> set ?ord" using ne by (rule last_in_set)
  then have mem: "a \<in> set ?keep" using a by simp
  have time: "a_time a = last (map a_time ?ord)"
    using ne a by (simp add: last_map)
  have "a_time b \<le> a_time a" if "b \<in> set ?keep" for b
  proof -
    have "a_time b \<in> set (map a_time ?ord)" using that by simp
    then show ?thesis
      unfolding time by (intro sorted_le_last) simp_all
  qed
  then show ?thesis using mem by auto
qed

lemma latest_id_archives:
  assumes "list_all is_archive js"
  shows "latest_id rt (JArr js) =
           (case spec_latest (map decode js) of
              None \<Rightarrow> Inl IndexError
            | Some a \<Rightarrow> Inr (JStr (a_id a)))"
proof -
  let ?keep = "filter (\<lambda>j. ''snapshot'' \<notin> set (a_tags (decode j))) js"
  let ?sorted = "sort_key (\<lambda>j. a_time (decode j)) ?keep"
  have keep: "list_all is_archive ?keep"
    using assms by (simp add: list_all_iff)
  have code: "latest_id rt (JArr js) =
      (if ?sorted = [] then Inl IndexError else py_getitem (last ?sorted) ''id'')"
    by (simp add: latest_id_def filter_e_archives [OF assms] py_sorted_archives [OF keep])
  have spec: "sort_key a_time (filter (\<lambda>a. ''snapshot'' \<notin> set (a_tags a)) (map decode js))
      = map decode ?sorted"
    by (simp add: filter_map comp_def sort_key_map)
  show ?thesis
  proof (cases "?sorted = []")
    case True
    then show ?thesis using code spec by (simp add: spec_latest_def)
  next
    case False
    then have "last ?sorted \<in> set ?sorted" by (rule last_in_set)
    then have "is_archive (last ?sorted)"
      using assms by (auto simp: list_all_iff)
    then have "py_getitem (last ?sorted) ''id'' = Inr (JStr (a_id (decode (last ?sorted))))"
      by (rule is_archive_fields(1))
    then show ?thesis using False code spec
      by (simp add: spec_latest_def Let_def last_map)
  qed
qed

subsubsection \<open>Programs and processes\<close>

lemma bind_simps [simp]:
  "bind (lift (Inr x)) f t = f x t"
  "bind (lift (Inl e)) f t = (Inl e, t)"
  "bind (ret x) f t = f x t"
  "bind (raise e) f t = (Inl e, t)"
  by (simp_all add: bind_def lift_def ret_def raise_def)

lemma bind_result:
  "m t = (Inr x, t') \<Longrightarrow> bind m f t = f x t'"
  "m t = (Inl e, t') \<Longrightarrow> bind m f t = (Inl e, t')"
  by (simp_all add: bind_def)

lemma Command_init_list [simp]: "Command_init (JArr xs) = JArr xs"
  by (simp add: Command_init_def)

lemma Command_capture_ok:
  "subprocess rt t (mk_call rt cmd env sh True) = Exited 0 (Some out) \<Longrightarrow>
   Command_capture rt cmd env sh True t = (Inr (strip out), t @ [Exec (mk_call rt cmd env sh True)])"
  by (simp add: Command_capture_def)

lemma Command_display_ok:
  "subprocess rt t (mk_call rt cmd env sh False) = Exited 0 out \<Longrightarrow>
   Command_display rt cmd env sh t = (Inr (), t @ [Exec (mk_call rt cmd env sh False)])"
  by (simp add: Command_display_def)

lemma Command_capture_trace:
  "Command_capture rt cmd env sh trim t = (r, t') \<Longrightarrow> t' = t @ [Exec (mk_call rt cmd env sh True)]"
  by (auto simp: Command_capture_def Let_def split: outcome.splits if_splits option.splits)

lemma Restic_list_trace:
  assumes "Restic_list rt config t = (Inr v, t1)"
  shows "\<exists>flags env. t1 = t @ [Exec (mk_call rt
            (JArr ([JStr ''restic'', JStr ''snapshots'', JStr ''--json''] @ flags)) env False True)]"
proof -
  obtain fl where fl: "Config_get_restic_flags config ''list'' = Inr fl"
    using assms by (cases "Config_get_restic_flags config ''list''") (simp_all add: Restic_list_def)
  obtain flags where flags: "py_iter fl = Inr flags"
    using assms fl by (cases "py_iter fl") (simp_all add: Restic_list_def)
  obtain env where env: "Config_env rt config = Inr env"
    using assms fl flags by (cases "Config_env rt config") (simp_all add: Restic_list_def)
  let ?cmd = "JArr ([JStr ''restic'', JStr ''snapshots'', JStr ''--json''] @ flags)"
  obtain r t' where cap: "Command_capture rt ?cmd env False True t = (r, t')"
    by (cases "Command_capture rt ?cmd env False True t") auto
  have t': "t' = t @ [Exec (mk_call rt ?cmd env False True)]"
    using cap by (rule Command_capture_trace)
  have "t1 = t'"
    using assms fl flags env cap
    by (cases r) (simp_all add: Restic_list_def bind_def lift_def)
  then show ?thesis using t' by blast
qed

lemma spec_latest_none:
  "list_all (\<lambda>a. ''snapshot'' \<in> set (a_tags a)) archives \<Longrightarrow> spec_latest archives = None"
  by (simp add: spec_latest_def list_all_iff filter_empty_conv)

lemma Restic_list_ok:
  assumes "Config_get_restic_flags config ''list'' = Inr fl"
    and "py_iter fl = Inr flags"
    and "Config_env rt config = Inr env"
    and "subprocess rt t (mk_call rt
           (JArr ([JStr ''restic'', JStr ''snapshots'', JStr ''--json''] @ flags)) env False True)
         = Exited 0 (Some out)"
  shows "Restic_list rt config t =
           (loads rt (strip out),
            t @ [Exec (mk_call rt
              (JArr ([JStr ''restic'', JStr ''snapshots'', JStr ''--json''] @ flags)) env False True)])"
  using assms(1-3) Command_capture_ok [OF assms(4)]
  by (simp add: Restic_list_def bind_result lift_def)

lemma demo_fields [simp]:
  "subprocess demo_runtime = demo_subprocess"
  "dumps demo_runtime demo_config = demo_config_text"
  "environ demo_runtime k = None"
  "globals demo_runtime ''CONFIG'' = Some demo_document_text"
  "loads demo_runtime demo_document_text = Inr demo_document"
  "loads demo_runtime demo_listing_text = Inr demo_listing"
  "path_exists demo_runtime t p = Inr True"
  "rmtree demo_runtime t p = None"
  "move demo_runtime t src dst = None"
  by (simp_all add: demo_runtime_def demo_document_text_def demo_listing_text_def
        demo_config_text_def)

lemma demo_snapshots_only_fields [simp]:
  "subprocess demo_snapshots_only = demo_subprocess"
  "dumps demo_snapshots_only = dumps demo_runtime"
  "loads demo_snapshots_only demo_listing_text = Inr snapshots_only"
  by (simp_all add: demo_snapshots_only_def)

lemma mk_call_sel [simp]:
  "args (mk_call rt cmd env sh cap) = cmd"
  "shell (mk_call rt cmd env sh cap) = sh"
  "capture_output (mk_call rt cmd env sh cap) = cap"
  by (simp_all add: mk_call_def)

lemma demo_config_fields:
  "Config_get_directory demo_config = Inr (JStr ''/d'')"
  "Config_get_restic_flags demo_config ''list'' = Inr (JArr [])"
  "Config_get_restic_flags demo_config ''backup'' = Inr (JArr [JStr ''--verbose''])"
  "Config_get_restic_flags demo_config ''restore'' = Inr (JArr [])"
  by (simp_all add: demo_config_def Config_get_directory_def Config_get_restic_flags_def)

lemma demo_config_env:
  "dumps rt demo_config = demo_config_text \<Longrightarrow> Config_env rt demo_config = Inr demo_env"
  by (simp add: Config_env_def Config_get_directory_def demo_env_def)
     (simp add: demo_config_def)

lemma strip_listing [simp]: "strip demo_listing_text = demo_listing_text"
  by (simp add: strip_def py_isspace_def demo_listing_text_def)

lemma demo_snapshots_only_list:
  "Restic_list demo_snapshots_only demo_config [] =
     (Inr snapshots_only,
      [Exec (mk_call demo_snapshots_only
         (JArr ([JStr ''restic'', JStr ''snapshots'', JStr ''--json''] @ [])) demo_env False True)])"
proof -
  have "subprocess demo_snapshots_only [] (mk_call demo_snapshots_only
           (JArr ([JStr ''restic'', JStr ''snapshots'', JStr ''--json''] @ [])) demo_env False True)
         = Exited 0 (Some demo_listing_text)"
    by (simp add: demo_subprocess_def)
  from Restic_list_ok [OF demo_config_fields(2) _ demo_config_env this]
  show ?thesis by simp
qed

subsubsection \<open>Evaluating a field of the configuration\<close>


lemma key_member: "map_of kvs k = Some v \<Longrightarrow> k \<in> set (map fst kvs)"
  by (metis map_of_eq_None_iff option.distinct(1) set_map)


lemma eval_field_command:
  assumes "py_getitem config section = Inr (JObj kvs)" and "name \<notin> set (map fst kvs)"
    and "map_of kvs (name @ ''_command'') = Some cmd"
    and "subprocess rt t (mk_call rt (Command_init cmd) [] True True) = Exited 0 (Some out)"
  shows "Config_eval_field rt config section name t =
           (store_field config section name (JStr (strip out)),
            t @ [Exec (mk_call rt (Command_init cmd) [] True True)])"
  using assms(1-3) key_member [OF assms(3)] Command_capture_ok [OF assms(4)]
  by (simp add: Config_eval_field_def bind_result lift_def)

lemma Dialog_input_ok:
  assumes "subprocess rt t (mk_call rt (input_command dialog true false dflt) [] False True)
             = Exited 0 (Some out)"
  shows "Dialog_input rt dialog true false dflt t =
           (Inr (strip out), t @ [Exec (mk_call rt (input_command dialog true false dflt) [] False True)])"
proof -
  have "Command_init (input_command dialog true false dflt) = input_command dialog true false dflt"
    by (simp add: input_command_def)
  then show ?thesis using Command_capture_ok [OF assms] by (simp add: Dialog_input_def)
qed

lemma eval_field_prompt:
  assumes "py_getitem config section = Inr (JObj kvs)" and "name \<notin> set (map fst kvs)"
    and "map_of kvs (name @ ''_command'') = None"
    and "subprocess rt t
           (mk_call rt (input_command (field_prompt section name) ''Ok'' ''Cancel'' False) [] False True)
         = Exited 0 (Some out)"
  shows "Config_eval_field rt config section name t =
           (store_field config section name (JStr (strip out)),
            t @ [Exec (mk_call rt (input_command (field_prompt section name) ''Ok'' ''Cancel'' False)
                         [] False True)])"
proof -
  have "name @ ''_command'' \<notin> set (map fst kvs)"
    using assms(3) by (simp add: map_of_eq_None_iff)
  then show ?thesis
    using assms(1,2) Dialog_input_ok [OF assms(4)]
    by (simp add: Config_eval_field_def bind_result lift_def)
qed






lemma demo_sections:
  "py_getitem demo_document ''restic'' =
     Inr (JObj [(''pass_command'', JStr ''cat /run/restic.key''), (''repo'', JStr ''r''),
                (''flags_backup'', JArr [JStr ''--verbose''])])"
  "py_getitem demo_midway ''s3'' = Inr (JObj [(''user'', JStr ''u'')])"
  "py_getitem demo_config ''restic'' =
     Inr (JObj [(''pass_command'', JStr ''cat /run/restic.key''), (''repo'', JStr ''r''),
                (''flags_backup'', JArr [JStr ''--verbose'']), (''pass'', JStr ''p'')])"
  "store_field demo_document ''restic'' ''pass'' (JStr ''p'') = Inr demo_midway"
  "store_field demo_midway ''s3'' ''pass'' (JStr ''p2'') = Inr demo_config"
  by (simp_all add: demo_document_def demo_midway_def demo_config_def store_field_def)

lemma demo_strip: "strip [CHR ''p'', CHR 0x0A] = ''p''" "strip ''p2'' = ''p2''"
  by (simp_all add: strip_def py_isspace_def)

lemma demo_secret_outcomes:
  "demo_subprocess t (mk_call rt (Command_init (JStr ''cat /run/restic.key'')) [] True True)
     = Exited 0 (Some (''p'' @ [CHR 0x0A]))"
  "demo_subprocess t
     (mk_call rt (input_command (field_prompt ''s3'' ''pass'') ''Ok'' ''Cancel'' False) [] False True)
     = Exited 0 (Some ''p2'')"
  by (simp_all add: demo_subprocess_def input_command_def Command_init_def Let_def
        field_prompt_def)


lemma demo_Config_source:
  assumes "environ rt = Map.empty" and "globals rt ''CONFIG'' = Some demo_document_text"
    and "loads rt demo_document_text = Inr demo_document"
  shows "Config_source rt ''RESTIC_EZ_CONFIG'' ''RESTIC_EZ_CONFIG_FILE'' ''CONFIG'' t
           = (Inr demo_document, t)"
  using assms by (simp add: Config_source_def lift_def)

lemma demo_Config:
  assumes "environ rt = Map.empty" and "globals rt ''CONFIG'' = Some demo_document_text"
    and "loads rt demo_document_text = Inr demo_document"
    and "subprocess rt = demo_subprocess"
  shows "Config rt [] = (Inr demo_config, [Exec (secret_call rt), Exec (prompt_call rt)])"
proof -
  have 1: "Config_eval_field rt demo_document ''restic'' ''pass'' []
             = (Inr demo_midway, [Exec (secret_call rt)])"
    using eval_field_command [OF demo_sections(1), of "''pass''" "JStr ''cat /run/restic.key''" rt "[]"
        "''p'' @ [CHR 0x0A]"] demo_secret_outcomes(1) [of "[]" rt] assms(4)
    by (simp add: demo_strip demo_sections secret_call_def Command_init_def)
  have 2: "Config_eval_field rt demo_midway ''s3'' ''pass'' [Exec (secret_call rt)]
             = (Inr demo_config, [Exec (secret_call rt), Exec (prompt_call rt)])"
    using eval_field_prompt [OF demo_sections(2), of "''pass''" rt "[Exec (secret_call rt)]" "''p2''"]
      demo_secret_outcomes(2) [of "[Exec (secret_call rt)]" rt] assms(4)
    by (simp add: demo_strip demo_sections prompt_call_def)
  show ?thesis
    using demo_Config_source [OF assms(1-3), of "[]"] 1 2
    by (simp add: Config_def Config_init_def bind_result)
qed

subsubsection \<open>Choosing the source\<close>

lemma Config_inline_raises:
  "environ rt ''RESTIC_EZ_CONFIG'' = Some v \<Longrightarrow> Config rt t = (Inl (NameError ''env''), t)"
  by (simp add: Config_def Config_init_def Config_source_def)

lemma Config_file_reads_name:
  "environ rt ''RESTIC_EZ_CONFIG'' = None \<Longrightarrow> environ rt ''RESTIC_EZ_CONFIG_FILE'' = Some path \<Longrightarrow>
   read_file rt ''RESTIC_EZ_CONFIG_FILE'' = Inl e \<Longrightarrow> Config rt t = (Inl e, t)"
  by (simp add: Config_def Config_init_def Config_source_def bind_def lift_def)

subsubsection \<open>The steps of the restore command\<close>

lemma Dialog_info_ok:
  assumes "subprocess rt t (info_call rt info) = Exited 0 (Some out)"
  shows "Dialog_info rt info t = (Inr (), t @ [Exec (info_call rt info)])"
proof -
  have "Command_init (info_command info) = info_command info"
    by (simp add: info_command_def)
  then show ?thesis
    using Command_capture_ok [of rt t "info_command info" "[]" False out] assms
    by (simp add: Dialog_info_def info_call_def bind_result ret_def)
qed

lemma Dialog_info_trace:
  assumes "Dialog_info rt info t = (r, t')"
  shows "t' = t @ [Exec (info_call rt info)]"
proof -
  have ci: "Command_init (info_command info) = info_command info"
    by (simp add: info_command_def)
  obtain r0 t0 where c: "Command_capture rt (info_command info) [] False True t = (r0, t0)"
    by (cases "Command_capture rt (info_command info) [] False True t") auto
  have "t0 = t @ [Exec (info_call rt info)]"
    using Command_capture_trace [OF c] by (simp add: info_call_def)
  moreover have "t' = t0"
    using assms c ci by (cases r0) (simp_all add: Dialog_info_def bind_result ret_def)
  ultimately show ?thesis by simp
qed

lemma Dialog_truefalse_result:
  "Dialog_truefalse rt (delete_question rt d) ''Delete directory'' ''Cancel'' False t =
     (Inr (accepted (subprocess rt t (confirm_call rt d))), t @ [Exec (confirm_call rt d)])"
proof -
  have ci: "Command_init (truefalse_command (delete_question rt d) ''Delete directory'' ''Cancel'' False)
      = truefalse_command (delete_question rt d) ''Delete directory'' ''Cancel'' False"
    by (simp add: truefalse_command_def)
  show ?thesis
    by (cases "subprocess rt t (confirm_call rt d)")
       (auto simp: Dialog_truefalse_def ci Command_capture_def confirm_call_def Let_def
             split: option.splits)
qed

lemma Command_display_trace:
  "Command_display rt cmd env sh t = (r, t') \<Longrightarrow> t' = t @ [Exec (mk_call rt cmd env sh False)]"
  by (auto simp: Command_display_def Let_def split: outcome.splits if_splits)

lemma Command_display_success:
  "Command_display rt cmd env sh t = (Inr u, t') \<Longrightarrow>
   \<exists>out. subprocess rt t (mk_call rt cmd env sh False) = Exited 0 out"
  by (auto simp: Command_display_def Let_def split: outcome.splits if_splits)

lemma Restic_create_ok:
  assumes "Config_get_restic_flags config ''backup'' = Inr fl"
    and "py_iter fl = Inr flags"
    and "Config_get_directory config = Inr d"
    and "Config_env rt config = Inr env"
    and "subprocess rt t (backup_call rt tags flags d env) = Exited 0 out"
  shows "Restic_create rt config tags t = (Inr (), t @ [Exec (backup_call rt tags flags d env)])"
  using assms(1-4) Command_display_ok [OF assms(5) [unfolded backup_call_def]]
  by (simp add: Restic_create_def backup_call_def)

text \<open>What a run of \<^verbatim>\<open>Restic.create\<close> has done: nothing, or the one backup command.\<close>

lemma Restic_create_cases:
  assumes "Restic_create rt config tags t = (r, t')"
    and "Config_get_directory config = Inr d"
  shows "(t' = t \<and> (\<exists>e. r = Inl e))
       \<or> (\<exists>flags env. t' = t @ [Exec (backup_call rt tags flags d env)]
            \<and> (r = Inr () \<longrightarrow> (\<exists>out. subprocess rt t (backup_call rt tags flags d env) = Exited 0 out)))"
proof (cases "Config_get_restic_flags config ''backup''")
  case (Inl e)
  then show ?thesis using assms by (auto simp: Restic_create_def)
next
  case fl: (Inr fl)
  show ?thesis
  proof (cases "py_iter fl")
    case (Inl e)
    then show ?thesis using assms fl by (auto simp: Restic_create_def)
  next
    case flags: (Inr flags)
    show ?thesis
    proof (cases "Config_env rt config")
      case (Inl e)
      then show ?thesis using assms fl flags by (auto simp: Restic_create_def)
    next
      case env: (Inr env)
      let ?cmd = "JArr ([JStr ''restic'', JStr ''backup'', JStr ''--tag'', JStr (join '','' tags)]
                 @ flags @ [d])"
      have run: "Command_display rt ?cmd env False t = (r, t')"
        using assms fl flags env by (simp add: Restic_create_def)
      have "t' = t @ [Exec (backup_call rt tags flags d env)]"
        using Command_display_trace [OF run] by (simp add: backup_call_def)
      moreover have "r = Inr () \<longrightarrow> (\<exists>out. subprocess rt t (backup_call rt tags flags d env) = Exited 0 out)"
        using Command_display_success [of rt ?cmd env False t "()" t'] run
        by (auto simp: backup_call_def)
      ultimately show ?thesis by blast
    qed
  qed
qed

lemma Restic_restore_ok:
  assumes "Restic_list rt config t = (Inr archives, t1)"
    and "latest_id rt archives = Inr ident"
    and "Config_get_restic_flags config ''restore'' = Inr fl"
    and "py_iter fl = Inr flags"
    and "Config_env rt config = Inr env"
    and "subprocess rt t1 (restore_call rt tmpdir flags ident env) = Exited 0 out"
  shows "Restic_restore rt config tmpdir None t =
           (Inr (), t1 @ [Exec (restore_call rt tmpdir flags ident env)])"
proof -
  have "bind (Restic_list rt config) (\<lambda>archives. lift (latest_id rt archives)) t = (Inr ident, t1)"
    using assms(1,2) by (simp add: bind_result lift_def)
  then show ?thesis
    using assms(3-5) Command_display_ok [OF assms(6) [unfolded restore_call_def]]
    by (simp add: Restic_restore_def restore_call_def bind_result)
qed

lemma do_rmtree_ok: "rmtree rt t p = None \<Longrightarrow> do_rmtree rt p t = (Inr (), t @ [Rmtree p])"
  by (simp add: do_rmtree_def)

lemma do_move_ok: "move rt t src dst = None \<Longrightarrow> do_move rt src dst t = (Inr (), t @ [Move src dst])"
  by (simp add: do_move_def)

lemma bind_assoc: "bind (bind m f) g = bind m (\<lambda>x. bind (f x) g)"
  by (rule ext) (simp add: bind_def split: prod.splits sum.splits)

lemma restore_steps_declined:
  assumes dir: "Config_get_directory config = Inr d"
    and present: "path_exists rt t1 d = Inr True"
    and info: "subprocess rt t1 (info_call rt ''Creating snapshot archive...'') = Exited 0 (Some o1)"
    and fl: "Config_get_restic_flags config ''backup'' = Inr fl"
    and flags: "py_iter fl = Inr flags"
    and env: "Config_env rt config = Inr env"
    and backup: "subprocess rt (t1 @ [Exec (info_call rt ''Creating snapshot archive...'')])
                   (backup_call rt [''snapshot''] flags d env) = Exited 0 o2"
    and declined: "\<not> accepted (subprocess rt
                   (t1 @ [Exec (info_call rt ''Creating snapshot archive...''),
                          Exec (backup_call rt [''snapshot''] flags d env)])
                   (confirm_call rt d))"
  shows "restore_steps rt config t1 =
           (Inl (RuntimeError ''Action cancelled by user''),
            t1 @ [Exec (info_call rt ''Creating snapshot archive...''),
                  Exec (backup_call rt [''snapshot''] flags d env),
                  Exec (confirm_call rt d)])"
proof -
  let ?i = "Exec (info_call rt ''Creating snapshot archive...'')"
  let ?b = "Exec (backup_call rt [''snapshot''] flags d env)"
  have 1: "Dialog_info rt ''Creating snapshot archive...'' t1 = (Inr (), t1 @ [?i])"
    using info by (rule Dialog_info_ok)
  have 2: "Restic_create rt config [''snapshot''] (t1 @ [?i]) = (Inr (), t1 @ [?i, ?b])"
    using Restic_create_ok [OF fl flags dir env backup] by simp
  have 3: "bind (Dialog_truefalse rt (delete_question rt d) ''Delete directory'' ''Cancel'' False) f
             (t1 @ [?i, ?b]) = f False (t1 @ [?i, ?b, Exec (confirm_call rt d)])" for f :: "bool \<Rightarrow> unit prog"
    using declined by (simp add: bind_def Dialog_truefalse_result)
  have ex: "bind (do_exists rt d) f t1 = f True t1" for f :: "bool \<Rightarrow> unit prog"
    using present by (simp add: bind_def do_exists_def)
  show ?thesis
    using dir 1 2
    by (simp add: restore_steps_def snapshot_and_delete_def restore_and_move_def
          bind_result bind_assoc
          ex 3)
qed

subsubsection \<open>Events are only ever added\<close>

lemma growsI: "(\<And>t r t'. m t = (r, t') \<Longrightarrow> \<exists>es. t' = t @ es) \<Longrightarrow> grows m"
  by (simp add: grows_def)

lemma growsD: "grows m \<Longrightarrow> m t = (r, t') \<Longrightarrow> \<exists>es. t' = t @ es"
  by (simp add: grows_def)

lemma grows_lift: "grows (lift x)"
  by (simp add: grows_def lift_def)

lemma grows_bind:
  assumes "grows m" and "\<And>x. grows (f x)"
  shows "grows (bind m f)"
proof (rule growsI)
  fix t r t'
  assume run: "bind m f t = (r, t')"
  obtain r1 t1 where m: "m t = (r1, t1)" by (cases "m t") auto
  obtain es1 where es1: "t1 = t @ es1" using growsD [OF assms(1) m] by blast
  show "\<exists>es. t' = t @ es"
  proof (cases r1)
    case (Inl e)
    then show ?thesis using run m es1 by (auto simp: bind_result)
  next
    case (Inr x)
    then have "f x t1 = (r, t')" using run m by (simp add: bind_result)
    then obtain es2 where "t' = t1 @ es2" using growsD [OF assms(2)] by blast
    then show ?thesis using es1 by simp
  qed
qed

lemma grows_Dialog_info: "grows (Dialog_info rt info)"
  by (rule growsI) (auto dest: Dialog_info_trace)

lemma grows_do_move: "grows (do_move rt src dst)"
  by (rule growsI) (auto simp: do_move_def split: option.splits)

lemma grows_do_rmtree: "grows (do_rmtree rt p)"
  by (rule growsI) (auto simp: do_rmtree_def split: option.splits)

lemma grows_Command_capture: "grows (Command_capture rt cmd env sh trim)"
  by (rule growsI) (auto dest: Command_capture_trace)

lemma grows_Command_display: "grows (Command_display rt cmd env sh)"
  by (rule growsI) (auto dest: Command_display_trace)

lemma grows_Restic_list: "grows (Restic_list rt config)"
  unfolding Restic_list_def
  by (intro grows_bind grows_lift grows_Command_capture)

lemma grows_Restic_restore: "grows (Restic_restore rt config tmpdir None)"
  unfolding Restic_restore_def option.case
  by (intro grows_bind grows_lift grows_Command_display grows_Restic_list)

lemma grows_restore_and_move: "grows (restore_and_move rt config)"
  unfolding restore_and_move_def
  by (intro grows_bind grows_lift grows_Dialog_info grows_Restic_restore grows_do_move
        grows_do_rmtree)

lemma confirm_not_info: "confirm_call rt d \<noteq> info_call rt info"
proof
  assume "confirm_call rt d = info_call rt info"
  then have "args (confirm_call rt d) = args (info_call rt info)" by simp
  then show False by (simp add: confirm_call_def info_call_def truefalse_command_def info_command_def)
qed

lemma confirm_not_backup: "confirm_call rt d \<noteq> backup_call rt tags flags d' env"
proof
  assume "confirm_call rt d = backup_call rt tags flags d' env"
  then have "capture_output (confirm_call rt d) = capture_output (backup_call rt tags flags d' env)"
    by simp
  then show False by (simp add: confirm_call_def backup_call_def)
qed

subsubsection \<open>The concrete run\<close>

lemma fstr_str [simp]: "fstr rt (JStr s) = s"
  by (simp add: fstr_def)

lemma demo_outcomes:
  "demo_subprocess t (info_call rt ''Creating snapshot archive...'') = Exited 0 (Some [])"
  "demo_subprocess t (info_call rt ''Restoring latest archive (this may take some time)...'')
     = Exited 0 (Some [])"
  "demo_subprocess t (info_call rt ''Moving restored directory into final location...'')
     = Exited 0 (Some [])"
  "demo_subprocess t (backup_call rt [''snapshot''] [JStr ''--verbose''] (JStr ''/d'') env)
     = Exited 0 (Some [])"
  "demo_subprocess t (confirm_call rt (JStr ''/d'')) = Exited 1 (Some [])"
  "demo_subprocess t (list_call rt [] env) = Exited 0 (Some demo_listing_text)"
  "demo_subprocess t (restore_call rt ''/d.restic-restore'' [] (JStr ''c'') env) = Exited 0 (Some [])"
  by (simp_all add: demo_subprocess_def Let_def info_call_def info_command_def backup_call_def
        confirm_call_def truefalse_command_def delete_question_def list_call_def restore_call_def)

lemma demo_latest: "latest_id rt demo_listing = Inr (JStr ''c'')"
proof -
  have "list_all is_archive (elements demo_listing)"
    by (simp add: demo_listing_def is_archive_def archive_json_def field_def)
  from latest_id_archives [OF this, of rt] show ?thesis
    by (simp add: demo_listing_def spec_latest_def decode_def archive_json_def field_def)
qed

lemma demo_absent_fields [simp]:
  "environ demo_absent = Map.empty"
  "globals demo_absent ''CONFIG'' = Some demo_document_text"
  "loads demo_absent = loads demo_runtime"
  "subprocess demo_absent = demo_subprocess"
  "dumps demo_absent = dumps demo_runtime"
  "path_exists demo_absent t p = Inr False"
  "rmtree demo_absent t p = None"
  "move demo_absent t src dst = None"
  by (simp_all add: demo_absent_def demo_runtime_def)

subsubsection \<open>The restore of the archive chosen by default\<close>

lemma Restic_restore_selected:
  assumes "Restic_list rt config t = (Inr archives, t1)"
    and "latest_id rt archives = Inr ident"
  shows "Restic_restore rt config tmpdir None t = Restic_restore rt config tmpdir (Some ident) t1"
proof -
  have "bind (Restic_list rt config) (\<lambda>archives. lift (latest_id rt archives)) t = (Inr ident, t1)"
    using assms by (simp add: bind_result lift_def)
  then show ?thesis
    by (simp add: Restic_restore_def bind_result)
qed

lemma Restic_restore_explicit:
  assumes "Config_get_restic_flags config ''restore'' = Inr fl"
    and "py_iter fl = Inr flags"
    and "Config_env rt config = Inr env"
  shows "snd (Restic_restore rt config tmpdir (Some ident) t1)
           = t1 @ [Exec (restore_call rt tmpdir flags ident env)]"
    and "(fst (Restic_restore rt config tmpdir (Some ident) t1) = Inr ())
           = (\<exists>out. subprocess rt t1 (restore_call rt tmpdir flags ident env) = Exited 0 out)"
  using assms
  by (auto simp: Restic_restore_def restore_call_def Command_display_def Let_def
        split: outcome.splits)

lemma three_archives:
  assumes "T1 < T2" "T2 < T3"
  shows "latest_id rt (JArr [archive_json ''a'' T1 [], archive_json ''b'' T2 [''snapshot''],
            archive_json ''c'' T3 []]) = Inr (JStr ''c'')"
proof -
  have le: "T1 \<le> T3" using assms by (metis less_trans less_imp_le)
  have "list_all is_archive [archive_json ''a'' T1 [], archive_json ''b'' T2 [''snapshot''],
            archive_json ''c'' T3 []]"
    by (simp add: is_archive_def archive_json_def field_def)
  from latest_id_archives [OF this, of rt] show ?thesis
    using le by (simp add: spec_latest_def decode_def field_def archive_json_def)
qed

lemma demo_runtime_list:
  "Restic_list demo_runtime demo_config [] = (Inr demo_listing, [Exec (list_call demo_runtime [] demo_env)])"
proof -
  have it: "py_iter (JArr []) = Inr []" by simp
  have e: "Config_env demo_runtime demo_config = Inr demo_env"
    by (simp add: demo_config_env)
  have "subprocess demo_runtime [] (mk_call demo_runtime
           (JArr ([JStr ''restic'', JStr ''snapshots'', JStr ''--json''] @ [])) demo_env False True)
         = Exited 0 (Some demo_listing_text)"
    using demo_outcomes(6) [of "[]" demo_runtime demo_env] by (simp add: list_call_def)
  from Restic_list_ok [OF demo_config_fields(2) it e this]
  show ?thesis by (simp add: list_call_def)
qed

subsection \<open>The flags of a context\<close>

text \<open>
  C5. Where the \<^verbatim>\<open>restic\<close> section of the configuration has no key \<^verbatim>\<open>flags_<context>\<close>,
  \<^verbatim>\<open>get_restic_flags\<close> returns the empty list and raises nothing; where it has the key, it
  returns the value stored under it. This holds for every context string.
\<close>

theorem get_restic_flags_lookup:
  "py_getitem config ''restic'' = Inr (JObj kvs) \<Longrightarrow>
     (map_of kvs (''flags_'' @ context) = None \<longrightarrow>
        Config_get_restic_flags config context = Inr (JArr []))
   \<and> (\<forall>v. map_of kvs (''flags_'' @ context) = Some v \<longrightarrow>
        Config_get_restic_flags config context = Inr v)"
  by (force simp: Config_get_restic_flags_def map_of_eq_None_iff dest: map_of_SomeD)

theorem get_restic_flags_lookup_witness:
  "Config_get_restic_flags demo_config ''list'' = Inr (JArr [])
   \<and> Config_get_restic_flags demo_config ''backup'' = Inr (JArr [JStr ''--verbose''])"
proof -
  let ?kvs = "[(''pass_command'', JStr ''cat /run/restic.key''), (''repo'', JStr ''r''),
               (''flags_backup'', JArr [JStr ''--verbose'']), (''pass'', JStr ''p'')]"
  have sec: "py_getitem demo_config ''restic'' = Inr (JObj ?kvs)"
    by (simp add: demo_config_def)
  have absent: "map_of ?kvs (''flags_'' @ ''list'') = None" by simp
  have present: "map_of ?kvs (''flags_'' @ ''backup'') = Some (JArr [JStr ''--verbose''])" by simp
  show ?thesis
    using get_restic_flags_lookup [OF sec, of "''list''"]
      get_restic_flags_lookup [OF sec, of "''backup''"] absent present
    by blast
qed

subsection \<open>The environment of the delegated processes\<close>

text \<open>
  C6. For a configuration that has the directory, the restic password and repository and
  the two S3 credentials, \<^verbatim>\<open>env\<close> returns exactly six entries: \<^verbatim>\<open>RESTIC_EZ_CONFIG\<close> with the
  document serialised again, \<^verbatim>\<open>DIRECTORY\<close>, \<^verbatim>\<open>RESTIC_PASSWORD\<close>, \<^verbatim>\<open>RESTIC_REPOSITORY\<close>,
  \<^verbatim>\<open>AWS_ACCESS_KEY_ID\<close> and \<^verbatim>\<open>AWS_SECRET_ACCESS_KEY\<close> with the fields of the document. It is
  a function of the document and of \<^verbatim>\<open>json.dumps\<close> alone: it consults neither processes
  nor files nor the ambient environment, and it returns no changed document.
\<close>

theorem env_exact:
  assumes "py_getitem config ''directory'' = Inr d"
    and "py_getitem config ''restic'' = Inr r"
    and "py_getitem r ''pass'' = Inr rp"
    and "py_getitem r ''repo'' = Inr rr"
    and "py_getitem config ''s3'' = Inr s"
    and "py_getitem s ''user'' = Inr su"
    and "py_getitem s ''pass'' = Inr sp"
  shows "Config_env rt config =
           Inr [(''RESTIC_EZ_CONFIG'', JStr (dumps rt config)),
                (''DIRECTORY'', d),
                (''RESTIC_PASSWORD'', rp),
                (''RESTIC_REPOSITORY'', rr),
                (''AWS_ACCESS_KEY_ID'', su),
                (''AWS_SECRET_ACCESS_KEY'', sp)]
         \<and> (\<forall>rt'. dumps rt' = dumps rt \<longrightarrow> Config_env rt' config = Config_env rt config)"
  using assms by (simp add: Config_env_def Config_get_directory_def)

theorem env_exact_witness:
  "Config_env demo_runtime demo_config =
     Inr [(''RESTIC_EZ_CONFIG'', JStr demo_config_text),
          (''DIRECTORY'', JStr ''/d''),
          (''RESTIC_PASSWORD'', JStr ''p''),
          (''RESTIC_REPOSITORY'', JStr ''r''),
          (''AWS_ACCESS_KEY_ID'', JStr ''u''),
          (''AWS_SECRET_ACCESS_KEY'', JStr ''p2'')]"
proof -
  let ?r = "JObj [(''pass_command'', JStr ''cat /run/restic.key''), (''repo'', JStr ''r''),
               (''flags_backup'', JArr [JStr ''--verbose'']), (''pass'', JStr ''p'')]"
  let ?s = "JObj [(''user'', JStr ''u''), (''pass'', JStr ''p2'')]"
  have h: "py_getitem demo_config ''directory'' = Inr (JStr ''/d'')"
    "py_getitem demo_config ''restic'' = Inr ?r"
    "py_getitem ?r ''pass'' = Inr (JStr ''p'')"
    "py_getitem ?r ''repo'' = Inr (JStr ''r'')"
    "py_getitem demo_config ''s3'' = Inr ?s"
    "py_getitem ?s ''user'' = Inr (JStr ''u'')"
    "py_getitem ?s ''pass'' = Inr (JStr ''p2'')"
    by (simp_all add: demo_config_def)
  have d: "dumps demo_runtime demo_config = demo_config_text"
    by (simp add: demo_runtime_def)
  show ?thesis
    using env_exact [OF h, of demo_runtime] d by simp
qed

subsection \<open>The archive restored by default\<close>

text \<open>
  C1. \<^verbatim>\<open>Restic.restore\<close> without an id, on a listing whose elements are archive records.
  The id it takes is the one the specification describes: the archives tagged \<^verbatim>\<open>snapshot\<close>
  are dropped, the others are sorted by their timestamp string, ascending, and the last one
  is taken (with \<^verbatim>\<open>IndexError\<close> where none is left). That id is what it hands to restic:
  after the listing it runs exactly one more process, \<^verbatim>\<open>restic restore --target\<close> with the
  restore flags and the id of the selected archive, and it returns normally exactly when
  that process exits with status 0. In particular, of the archives \<open>a\<close> at \<open>T1\<close>, \<open>b\<close> at
  \<open>T2\<close> tagged \<^verbatim>\<open>snapshot\<close> and \<open>c\<close> at \<open>T3\<close>, with \<open>T1 < T2 < T3\<close>, it takes \<open>c\<close> and
  restores \<open>c\<close>.
\<close>

theorem restore_selects_latest_archive:
  "(list_all is_archive js \<longrightarrow>
      latest_id rt (JArr js) =
        (case spec_latest (map decode js) of
           None \<Rightarrow> Inl IndexError
         | Some a \<Rightarrow> Inr (JStr (a_id a))))
   \<and> (Restic_list rt config t = (Inr (JArr js), t1) \<and> list_all is_archive js
        \<and> spec_latest (map decode js) = Some a
        \<and> Config_get_restic_flags config ''restore'' = Inr fl \<and> py_iter fl = Inr flags
        \<and> Config_env rt config = Inr env \<longrightarrow>
      snd (Restic_restore rt config tmpdir None t)
        = t1 @ [Exec (restore_call rt tmpdir flags (JStr (a_id a)) env)]
      \<and> (fst (Restic_restore rt config tmpdir None t) = Inr ())
        = (\<exists>out. subprocess rt t1 (restore_call rt tmpdir flags (JStr (a_id a)) env)
                   = Exited 0 out))
   \<and> (T1 < T2 \<and> T2 < T3 \<longrightarrow>
      latest_id rt (JArr [archive_json ''a'' T1 [], archive_json ''b'' T2 [''snapshot''],
                          archive_json ''c'' T3 []]) = Inr (JStr ''c''))
   \<and> (T1 < T2 \<and> T2 < T3
        \<and> Restic_list rt config t
            = (Inr (JArr [archive_json ''a'' T1 [], archive_json ''b'' T2 [''snapshot''],
                          archive_json ''c'' T3 []]), t1)
        \<and> Config_get_restic_flags config ''restore'' = Inr fl \<and> py_iter fl = Inr flags
        \<and> Config_env rt config = Inr env \<longrightarrow>
      snd (Restic_restore rt config tmpdir None t)
        = t1 @ [Exec (restore_call rt tmpdir flags (JStr ''c'') env)])"
proof (intro conjI impI)
  assume "list_all is_archive js"
  then show "latest_id rt (JArr js) =
      (case spec_latest (map decode js) of
         None \<Rightarrow> Inl IndexError
       | Some a \<Rightarrow> Inr (JStr (a_id a)))"
    by (rule latest_id_archives)
next
  assume h: "Restic_list rt config t = (Inr (JArr js), t1) \<and> list_all is_archive js
        \<and> spec_latest (map decode js) = Some a
        \<and> Config_get_restic_flags config ''restore'' = Inr fl \<and> py_iter fl = Inr flags
        \<and> Config_env rt config = Inr env"
  then have sel: "latest_id rt (JArr js) = Inr (JStr (a_id a))"
    using latest_id_archives [of js rt] by simp
  have eq: "Restic_restore rt config tmpdir None t
      = Restic_restore rt config tmpdir (Some (JStr (a_id a))) t1"
    using h sel by (simp add: Restic_restore_selected)
  show "snd (Restic_restore rt config tmpdir None t)
        = t1 @ [Exec (restore_call rt tmpdir flags (JStr (a_id a)) env)]"
    using h eq Restic_restore_explicit(1) [of config fl flags rt env] by simp
  show "(fst (Restic_restore rt config tmpdir None t) = Inr ())
        = (\<exists>out. subprocess rt t1 (restore_call rt tmpdir flags (JStr (a_id a)) env)
                   = Exited 0 out)"
    using h eq Restic_restore_explicit(2) [of config fl flags rt env] by simp
next
  assume "T1 < T2 \<and> T2 < T3"
  then show "latest_id rt (JArr [archive_json ''a'' T1 [], archive_json ''b'' T2 [''snapshot''],
            archive_json ''c'' T3 []]) = Inr (JStr ''c'')"
    by (simp add: three_archives)
next
  assume h: "T1 < T2 \<and> T2 < T3
        \<and> Restic_list rt config t
            = (Inr (JArr [archive_json ''a'' T1 [], archive_json ''b'' T2 [''snapshot''],
                          archive_json ''c'' T3 []]), t1)
        \<and> Config_get_restic_flags config ''restore'' = Inr fl \<and> py_iter fl = Inr flags
        \<and> Config_env rt config = Inr env"
  then have sel: "latest_id rt (JArr [archive_json ''a'' T1 [], archive_json ''b'' T2 [''snapshot''],
            archive_json ''c'' T3 []]) = Inr (JStr ''c'')"
    by (simp add: three_archives)
  have eq: "Restic_restore rt config tmpdir None t
      = Restic_restore rt config tmpdir (Some (JStr ''c'')) t1"
    using h sel by (simp add: Restic_restore_selected)
  show "snd (Restic_restore rt config tmpdir None t)
        = t1 @ [Exec (restore_call rt tmpdir flags (JStr ''c'') env)]"
    using h eq Restic_restore_explicit(1) [of config fl flags rt env] by simp
qed

theorem restore_selects_latest_archive_witness:
  "Restic_list demo_runtime demo_config [] =
     (Inr demo_listing, [Exec (list_call demo_runtime [] demo_env)])
   \<and> list_all is_archive (elements demo_listing)
   \<and> spec_latest (map decode (elements demo_listing))
       = Some \<lparr>a_id = ''c'', a_time = ''2024-03-01'', a_tags = [''backup'']\<rparr>
   \<and> latest_id demo_runtime demo_listing = Inr (JStr ''c'')
   \<and> Restic_restore demo_runtime demo_config ''/d.restic-restore'' None [] =
       (Inr (),
        [Exec (list_call demo_runtime [] demo_env),
         Exec (restore_call demo_runtime ''/d.restic-restore'' [] (JStr ''c'') demo_env)])
   \<and> ''2024-01-01'' < ''2024-02-01'' \<and> ''2024-02-01'' < ''2024-03-01''
   \<and> latest_id demo_runtime
        (JArr [archive_json ''a'' ''2024-01-01'' [], archive_json ''b'' ''2024-02-01'' [''snapshot''],
               archive_json ''c'' ''2024-03-01'' []]) = Inr (JStr ''c'')"
proof -
  let ?c = "\<lparr>a_id = ''c'', a_time = ''2024-03-01'', a_tags = [''backup'']\<rparr>"
  let ?l = "Exec (list_call demo_runtime [] demo_env)"
  let ?r = "restore_call demo_runtime ''/d.restic-restore'' [] (JStr ''c'') demo_env"
  have wf: "list_all is_archive (elements demo_listing)"
    by (simp add: demo_listing_def is_archive_def archive_json_def field_def)
  have sel: "spec_latest (map decode (elements demo_listing)) = Some ?c"
    by (simp add: demo_listing_def spec_latest_def decode_def archive_json_def field_def)
  have arr: "demo_listing = JArr (elements demo_listing)"
    by (simp add: demo_listing_def)
  have ord: "''2024-01-01'' < ''2024-02-01'' \<and> ''2024-02-01'' < ''2024-03-01''"
    by simp
  have lst: "Restic_list demo_runtime demo_config [] = (Inr (JArr (elements demo_listing)), [?l])"
    using demo_runtime_list arr by simp
  have fl: "Config_get_restic_flags demo_config ''restore'' = Inr (JArr [])"
    by (rule demo_config_fields(4))
  have it: "py_iter (JArr []) = Inr []" by simp
  have e: "Config_env demo_runtime demo_config = Inr demo_env"
    by (simp add: demo_config_env)
  have out: "subprocess demo_runtime [?l] ?r = Exited 0 (Some [])"
    by (simp add: demo_outcomes)
  note at_demo = restore_selects_latest_archive
      [of "elements demo_listing" demo_runtime demo_config "[]" "[?l]" ?c "JArr []" "[]" demo_env
          "''/d.restic-restore''" "''2024-01-01''" "''2024-02-01''" "''2024-03-01''"]
  have chosen: "latest_id demo_runtime demo_listing = Inr (JStr ''c'')"
    using at_demo wf sel arr by simp
  have tr: "snd (Restic_restore demo_runtime demo_config ''/d.restic-restore'' None [])
      = [?l, Exec ?r]"
    and ok: "fst (Restic_restore demo_runtime demo_config ''/d.restic-restore'' None []) = Inr ()"
    using at_demo lst wf sel fl it e out by simp_all
  have run: "Restic_restore demo_runtime demo_config ''/d.restic-restore'' None []
      = (Inr (), [?l, Exec ?r])"
    using tr ok by (simp add: prod_eq_iff)
  have inst: "latest_id demo_runtime
        (JArr [archive_json ''a'' ''2024-01-01'' [], archive_json ''b'' ''2024-02-01'' [''snapshot''],
               archive_json ''c'' ''2024-03-01'' []]) = Inr (JStr ''c'')"
    using at_demo ord by simp
  show ?thesis using demo_runtime_list wf sel chosen run ord inst by simp
qed

text \<open>
  C2. Where the listing returns archive records that all carry the tag \<^verbatim>\<open>snapshot\<close>
  (nothing is left after the filter), \<^verbatim>\<open>restore\<close> without an id fails with the
  \<^verbatim>\<open>IndexError\<close> of \<^verbatim>\<open>archives[-1]\<close>, which is what the specification calls
  NoArchiveError. The only process it has run by then is the listing: no restore command
  is issued.
\<close>

theorem restore_without_archive_fails:
  assumes "Restic_list rt config t = (Inr (JArr js), t1)"
    and "list_all is_archive js"
    and "list_all (\<lambda>a. ''snapshot'' \<in> set (a_tags a)) (map decode js)"
  shows "Restic_restore rt config tmpdir None t = (Inl IndexError, t1)
       \<and> (\<exists>flags env. t1 = t @ [Exec (mk_call rt
            (JArr ([JStr ''restic'', JStr ''snapshots'', JStr ''--json''] @ flags)) env False True)])"
proof -
  have "latest_id rt (JArr js) = Inl IndexError"
    using latest_id_archives [OF assms(2), of rt] spec_latest_none [OF assms(3)] by simp
  then have "Restic_restore rt config tmpdir None t = (Inl IndexError, t1)"
    using assms(1) by (simp add: Restic_restore_def bind_def lift_def)
  then show ?thesis using Restic_list_trace [OF assms(1)] by simp
qed

theorem restore_without_archive_fails_witness:
  "list_all is_archive (elements snapshots_only)
   \<and> Restic_restore demo_snapshots_only demo_config ''/d.restic-restore'' None [] =
       (Inl IndexError,
        [Exec (mk_call demo_snapshots_only
           (JArr [JStr ''restic'', JStr ''snapshots'', JStr ''--json'']) demo_env False True)])"
proof -
  have l: "Restic_list demo_snapshots_only demo_config [] =
     (Inr (JArr (elements snapshots_only)),
      [Exec (mk_call demo_snapshots_only
         (JArr ([JStr ''restic'', JStr ''snapshots'', JStr ''--json''] @ [])) demo_env False True)])"
    using demo_snapshots_only_list by (simp add: snapshots_only_def)
  have wf: "list_all is_archive (elements snapshots_only)"
    by (simp add: snapshots_only_def is_archive_def archive_json_def field_def)
  have sn: "list_all (\<lambda>a. ''snapshot'' \<in> set (a_tags a)) (map decode (elements snapshots_only))"
    by (simp add: snapshots_only_def decode_def archive_json_def field_def)
  show ?thesis
    using restore_without_archive_fails [OF l wf sn, of "''/d.restic-restore''"] wf by simp
qed

subsection \<open>The secret fields\<close>



subsection \<open>The sources of the configuration\<close>

text \<open>
  C3. The claim is that \<^verbatim>\<open>RESTIC_EZ_CONFIG\<close>, when set, is parsed and becomes the
  configuration, and that otherwise the file at the path in \<^verbatim>\<open>RESTIC_EZ_CONFIG_FILE\<close> is
  parsed. The code does neither. With \<^verbatim>\<open>RESTIC_EZ_CONFIG\<close> holding a valid, fully resolved
  document, \<^verbatim>\<open>Config()\<close> raises \<^verbatim>\<open>NameError\<close>: line 89 reads \<^verbatim>\<open>os.environ[env]\<close>, and no
  name \<^verbatim>\<open>env\<close> is in scope. With \<^verbatim>\<open>RESTIC_EZ_CONFIG_FILE\<close> holding the path of a file with
  that document, line 91 opens the file called \<^verbatim>\<open>RESTIC_EZ_CONFIG_FILE\<close>, which is not
  there.
\<close>

theorem config_sources_defect:
  "environ demo_inline ''RESTIC_EZ_CONFIG'' = Some demo_config_text
   \<and> loads demo_inline demo_config_text = Inr demo_config
   \<and> Config demo_inline [] = (Inl (NameError ''env''), [])
   \<and> environ demo_file ''RESTIC_EZ_CONFIG_FILE'' = Some ''/etc/restic-ez.json''
   \<and> read_file demo_file ''/etc/restic-ez.json'' = Inr demo_config_text
   \<and> loads demo_file demo_config_text = Inr demo_config
   \<and> Config demo_file [] = (Inl (OSError ''No such file or directory''), [])"
proof -
  have 1: "environ demo_inline ''RESTIC_EZ_CONFIG'' = Some demo_config_text"
    by (simp add: demo_inline_def)
  have 2: "loads demo_inline demo_config_text = Inr demo_config"
    "loads demo_file demo_config_text = Inr demo_config"
    by (simp_all add: demo_inline_def demo_file_def demo_runtime_def demo_config_text_def demo_document_text_def)
  have 3: "environ demo_file ''RESTIC_EZ_CONFIG'' = None"
    "environ demo_file ''RESTIC_EZ_CONFIG_FILE'' = Some ''/etc/restic-ez.json''"
    "read_file demo_file ''/etc/restic-ez.json'' = Inr demo_config_text"
    "read_file demo_file ''RESTIC_EZ_CONFIG_FILE'' = Inl (OSError ''No such file or directory'')"
    by (simp_all add: demo_file_def)
  show ?thesis
    using 1 2 3 Config_inline_raises [OF 1, of "[]"] Config_file_reads_name [OF 3(1,2,4), of "[]"]
    by simp
qed

subsection \<open>Loading the configuration a second time\<close>

text \<open>
  C7. The claim is that a process started with the environment \<^verbatim>\<open>Config.env\<close> builds can
  load the configuration from \<^verbatim>\<open>RESTIC_EZ_CONFIG\<close>. It cannot: the configuration is
  resolved, its environment carries the serialised document, the \<^verbatim>\<open>json\<close> module reads that
  text back to the same document, and \<^verbatim>\<open>Config()\<close> in the child raises \<^verbatim>\<open>NameError\<close>, by
  the same line 89 as in C3.
\<close>

theorem reload_from_env_raises:
  "Config demo_runtime [] =
       (Inr demo_config, [Exec (secret_call demo_runtime), Exec (prompt_call demo_runtime)])
   \<and> Config_env demo_runtime demo_config = Inr demo_env
   \<and> environ (child_runtime demo_runtime demo_env) ''RESTIC_EZ_CONFIG''
       = Some (dumps demo_runtime demo_config)
   \<and> loads (child_runtime demo_runtime demo_env) (dumps demo_runtime demo_config) = Inr demo_config
   \<and> Config (child_runtime demo_runtime demo_env) [] = (Inl (NameError ''env''), [])"
proof -
  have env: "environ demo_runtime = Map.empty"
    by (simp add: demo_runtime_def)
  have 1: "environ (child_runtime demo_runtime demo_env) ''RESTIC_EZ_CONFIG'' = Some demo_config_text"
    by (simp add: child_runtime_def merged_env_def demo_env_def)
  have 2: "loads (child_runtime demo_runtime demo_env) demo_config_text = Inr demo_config"
    by (simp add: child_runtime_def demo_runtime_def demo_config_text_def demo_document_text_def)
  show ?thesis
    using demo_Config [OF env] demo_config_env [of demo_runtime] 1 2
      Config_inline_raises [OF 1, of "[]"]
    by simp
qed

subsection \<open>The restore command\<close>

text \<open>
  C8. The managed directory exists, the progress message and the snapshot backup go
  through, and the user does not accept the delete question. Then \<^verbatim>\<open>restore()\<close> ends with
  \<^verbatim>\<open>RuntimeError("Action cancelled by user")\<close>, the specification's UserCancelledError.
  After the configuration is loaded it has run exactly three processes, the question being
  the last: no \<^verbatim>\<open>rmtree\<close> and no \<^verbatim>\<open>move\<close> has happened, so the directory is as it was, and
  nothing of restic (no listing, no restore) runs after the refusal.
\<close>

theorem restore_declined:
  assumes cfg: "Config rt t = (Inr config, t1)"
    and dir: "Config_get_directory config = Inr d"
    and present: "path_exists rt t1 d = Inr True"
    and info: "subprocess rt t1 (info_call rt ''Creating snapshot archive...'') = Exited 0 (Some o1)"
    and fl: "Config_get_restic_flags config ''backup'' = Inr fl"
    and flags: "py_iter fl = Inr flags"
    and env: "Config_env rt config = Inr env"
    and backup: "subprocess rt (t1 @ [Exec (info_call rt ''Creating snapshot archive...'')])
                   (backup_call rt [''snapshot''] flags d env) = Exited 0 o2"
    and declined: "\<not> accepted (subprocess rt
                   (t1 @ [Exec (info_call rt ''Creating snapshot archive...''),
                          Exec (backup_call rt [''snapshot''] flags d env)])
                   (confirm_call rt d))"
  shows "restore rt t =
           (Inl (RuntimeError ''Action cancelled by user''),
            t1 @ [Exec (info_call rt ''Creating snapshot archive...''),
                  Exec (backup_call rt [''snapshot''] flags d env),
                  Exec (confirm_call rt d)])"
  using cfg restore_steps_declined [OF dir present info fl flags env backup declined]
  by (simp add: restore_def bind_result)

theorem restore_declined_witness:
  "restore demo_runtime [] =
     (Inl (RuntimeError ''Action cancelled by user''),
      [Exec (secret_call demo_runtime), Exec (prompt_call demo_runtime),
       Exec (info_call demo_runtime ''Creating snapshot archive...''),
       Exec (backup_call demo_runtime [''snapshot''] [JStr ''--verbose''] (JStr ''/d'') demo_env),
       Exec (confirm_call demo_runtime (JStr ''/d''))])"
proof -
  have env: "environ demo_runtime = Map.empty"
    by (simp add: demo_runtime_def)
  have cfg: "Config demo_runtime [] =
        (Inr demo_config, [Exec (secret_call demo_runtime), Exec (prompt_call demo_runtime)])"
    using demo_Config [OF env] by simp
  have it: "py_iter (JArr [JStr ''--verbose'']) = Inr [JStr ''--verbose'']" by simp
  have e: "Config_env demo_runtime demo_config = Inr demo_env"
    by (simp add: demo_config_env)
  show ?thesis
    using restore_declined [OF cfg demo_config_fields(1) _ _ demo_config_fields(3) it e, of "[]" "Some []"]
    by (simp add: demo_outcomes)
qed

text \<open>
  C9. The managed directory does not exist and every step goes through. Then \<^verbatim>\<open>restore()\<close>
  does, after loading the configuration, exactly this: the progress message, the listing
  (no id is given, so the latest archive that is no snapshot is looked up), \<^verbatim>\<open>restic restore\<close>
  of that archive with \<^verbatim>\<open>--target\<close> the directory path followed by \<^verbatim>\<open>.restic-restore\<close>, the
  second progress message, the move of \<^verbatim>\<open><target>/<directory>\<close> to the directory, and the
  removal of the target tree. No snapshot is made, no question is asked and the directory
  is not deleted first.
\<close>

theorem restore_absent_directory:
  assumes cfg: "Config rt t = (Inr config, t1)"
    and dir: "Config_get_directory config = Inr d"
    and absent: "path_exists rt t1 d = Inr False"
    and info1: "subprocess rt t1
                  (info_call rt ''Restoring latest archive (this may take some time)...'')
                = Exited 0 (Some o1)"
    and lfl: "Config_get_restic_flags config ''list'' = Inr lfl"
    and lflags: "py_iter lfl = Inr lflags"
    and env: "Config_env rt config = Inr env"
    and listing: "subprocess rt
                  (t1 @ [Exec (info_call rt ''Restoring latest archive (this may take some time)...'')])
                  (list_call rt lflags env) = Exited 0 (Some out)"
    and parsed: "loads rt (strip out) = Inr archives"
    and latest: "latest_id rt archives = Inr ident"
    and rfl: "Config_get_restic_flags config ''restore'' = Inr rfl"
    and rflags: "py_iter rfl = Inr rflags"
    and restored: "subprocess rt
                  (t1 @ [Exec (info_call rt ''Restoring latest archive (this may take some time)...''),
                         Exec (list_call rt lflags env)])
                  (restore_call rt (fstr rt d @ ''.restic-restore'') rflags ident env) = Exited 0 o3"
    and info2: "subprocess rt
                  (t1 @ [Exec (info_call rt ''Restoring latest archive (this may take some time)...''),
                         Exec (list_call rt lflags env),
                         Exec (restore_call rt (fstr rt d @ ''.restic-restore'') rflags ident env)])
                  (info_call rt ''Moving restored directory into final location...'')
                = Exited 0 (Some o4)"
    and moved: "move rt
                  (t1 @ [Exec (info_call rt ''Restoring latest archive (this may take some time)...''),
                         Exec (list_call rt lflags env),
                         Exec (restore_call rt (fstr rt d @ ''.restic-restore'') rflags ident env),
                         Exec (info_call rt ''Moving restored directory into final location...'')])
                  (JStr (fstr rt d @ ''.restic-restore/'' @ fstr rt d)) d = None"
    and removed: "rmtree rt
                  (t1 @ [Exec (info_call rt ''Restoring latest archive (this may take some time)...''),
                         Exec (list_call rt lflags env),
                         Exec (restore_call rt (fstr rt d @ ''.restic-restore'') rflags ident env),
                         Exec (info_call rt ''Moving restored directory into final location...''),
                         Move (JStr (fstr rt d @ ''.restic-restore/'' @ fstr rt d)) d])
                  (JStr (fstr rt d @ ''.restic-restore'')) = None"
  shows "restore rt t =
           (Inr (),
            t1 @ [Exec (info_call rt ''Restoring latest archive (this may take some time)...''),
                  Exec (list_call rt lflags env),
                  Exec (restore_call rt (fstr rt d @ ''.restic-restore'') rflags ident env),
                  Exec (info_call rt ''Moving restored directory into final location...''),
                  Move (JStr (fstr rt d @ ''.restic-restore/'' @ fstr rt d)) d,
                  Rmtree (JStr (fstr rt d @ ''.restic-restore''))])"
proof -
  let ?i1 = "Exec (info_call rt ''Restoring latest archive (this may take some time)...'')"
  let ?l = "Exec (list_call rt lflags env)"
  let ?r = "Exec (restore_call rt (fstr rt d @ ''.restic-restore'') rflags ident env)"
  let ?i2 = "Exec (info_call rt ''Moving restored directory into final location...'')"
  let ?m = "Move (JStr (fstr rt d @ ''.restic-restore/'' @ fstr rt d)) d"
  have ex: "bind (do_exists rt d) f t1 = f False t1" for f :: "bool \<Rightarrow> unit prog"
    using absent by (simp add: bind_def do_exists_def)
  have 1: "Dialog_info rt ''Restoring latest archive (this may take some time)...'' t1
             = (Inr (), t1 @ [?i1])"
    using info1 by (rule Dialog_info_ok)
  have 2: "Restic_list rt config (t1 @ [?i1]) = (Inr archives, t1 @ [?i1, ?l])"
    using Restic_list_ok [OF lfl lflags env listing [unfolded list_call_def]] parsed
    by (simp add: list_call_def)
  have 3: "Restic_restore rt config (fstr rt d @ ''.restic-restore'') None (t1 @ [?i1])
             = (Inr (), t1 @ [?i1, ?l, ?r])"
    using Restic_restore_ok [OF 2 latest rfl rflags env restored] by simp
  have 4: "Dialog_info rt ''Moving restored directory into final location...'' (t1 @ [?i1, ?l, ?r])
             = (Inr (), t1 @ [?i1, ?l, ?r, ?i2])"
    using Dialog_info_ok [OF info2] by simp
  have 5: "do_move rt (JStr (fstr rt d @ ''.restic-restore/'' @ fstr rt d)) d (t1 @ [?i1, ?l, ?r, ?i2])
             = (Inr (), t1 @ [?i1, ?l, ?r, ?i2, ?m])"
    using do_move_ok [OF moved] by simp
  have 6: "do_rmtree rt (JStr (fstr rt d @ ''.restic-restore'')) (t1 @ [?i1, ?l, ?r, ?i2, ?m])
             = (Inr (), t1 @ [?i1, ?l, ?r, ?i2, ?m, Rmtree (JStr (fstr rt d @ ''.restic-restore''))])"
    using do_rmtree_ok [OF removed] by simp
  show ?thesis
    using cfg dir 1 3 4 5 6
    by (simp add: restore_def restore_steps_def snapshot_and_delete_def restore_and_move_def
          bind_result bind_assoc
          ex)
qed

theorem restore_absent_directory_witness:
  "restore demo_absent [] =
     (Inr (),
      [Exec (secret_call demo_absent), Exec (prompt_call demo_absent),
       Exec (info_call demo_absent ''Restoring latest archive (this may take some time)...''),
       Exec (list_call demo_absent [] demo_env),
       Exec (restore_call demo_absent ''/d.restic-restore'' [] (JStr ''c'') demo_env),
       Exec (info_call demo_absent ''Moving restored directory into final location...''),
       Move (JStr ''/d.restic-restore//d'') (JStr ''/d''),
       Rmtree (JStr ''/d.restic-restore'')])"
proof -
  have cfg: "Config demo_absent [] =
        (Inr demo_config, [Exec (secret_call demo_absent), Exec (prompt_call demo_absent)])"
    using demo_Config [of demo_absent] by simp
  have it: "py_iter (JArr []) = Inr []" by simp
  have e: "Config_env demo_absent demo_config = Inr demo_env"
    by (simp add: demo_config_env)
  have p: "loads demo_absent (strip demo_listing_text) = Inr demo_listing"
    by simp
  show ?thesis
    using restore_absent_directory [OF cfg demo_config_fields(1) _ _ demo_config_fields(2) it e _ p
        demo_latest demo_config_fields(4) it, of "[]" "Some []" "[]"]
    by (simp add: demo_outcomes)
qed

text \<open>
  C10. The managed directory exists. In every run of the body of \<^verbatim>\<open>restore()\<close> in which the
  delete question is asked, whatever the processes answer, the run has before the question
  shown the progress message and run \<^verbatim>\<open>restic backup --tag snapshot\<close> on the directory, and
  that backup has exited with status 0: the snapshot archive is made first. Where the
  question is then not accepted, the run ends there with
  \<^verbatim>\<open>RuntimeError("Action cancelled by user")\<close>, the snapshot having been made all the same.
\<close>

theorem snapshot_before_confirmation:
  assumes dir: "Config_get_directory config = Inr d"
    and present: "path_exists rt t d = Inr True"
    and run: "restore_steps rt config t = (r, t')"
    and shown: "Exec (confirm_call rt d) \<in> set (drop (length t) t')"
  shows "\<exists>flags env out rest.
           t' = t @ [Exec (info_call rt ''Creating snapshot archive...''),
                     Exec (backup_call rt [''snapshot''] flags d env),
                     Exec (confirm_call rt d)] @ rest
         \<and> subprocess rt (t @ [Exec (info_call rt ''Creating snapshot archive...'')])
               (backup_call rt [''snapshot''] flags d env) = Exited 0 out
         \<and> (\<not> accepted (subprocess rt
                 (t @ [Exec (info_call rt ''Creating snapshot archive...''),
                       Exec (backup_call rt [''snapshot''] flags d env)])
                 (confirm_call rt d)) \<longrightarrow>
              r = Inl (RuntimeError ''Action cancelled by user'') \<and> rest = [])"
proof -
  let ?i = "Exec (info_call rt ''Creating snapshot archive...'')"
  let ?c = "Exec (confirm_call rt d)"
  let ?rest = "\<lambda>u :: unit. restore_and_move rt config"
  have ex: "bind (do_exists rt d) f t = f True t" for f :: "bool \<Rightarrow> unit prog"
    using present by (simp add: bind_def do_exists_def)
  have run1: "bind (snapshot_and_delete rt config) ?rest t = (r, t')"
    using run dir by (simp add: restore_steps_def ex)
  obtain ri ta where i: "Dialog_info rt ''Creating snapshot archive...'' t = (ri, ta)"
    by (cases "Dialog_info rt ''Creating snapshot archive...'' t") auto
  have ta: "ta = t @ [?i]" using Dialog_info_trace [OF i] .
  show ?thesis
  proof (cases ri)
    case (Inl e)
    then have "t' = ta"
      using run1 i by (simp add: snapshot_and_delete_def bind_assoc bind_result)
    then show ?thesis using shown ta confirm_not_info by simp
  next
    case (Inr u)
    obtain rc tb where c: "Restic_create rt config [''snapshot''] ta = (rc, tb)"
      by (cases "Restic_create rt config [''snapshot''] ta") auto
    have run2: "bind (Restic_create rt config [''snapshot'']) (\<lambda>u.
         bind (lift (Config_get_directory config)) (\<lambda>d.
         bind (Dialog_truefalse rt (delete_question rt d) ''Delete directory'' ''Cancel'' False)
           (\<lambda>confirmed.
         bind (if \<not> confirmed then raise (RuntimeError ''Action cancelled by user'')
               else bind (lift (Config_get_directory config)) (\<lambda>d. do_rmtree rt d)) ?rest))) ta
        = (r, t')"
      using run1 i Inr by (simp add: snapshot_and_delete_def bind_assoc bind_result)
    show ?thesis
    proof (cases rc)
      case (Inl e)
      then have t': "t' = tb" using run2 c by (simp add: bind_result)
      from Restic_create_cases [OF c dir]
      show ?thesis
      proof
        assume "tb = ta \<and> (\<exists>e. rc = Inl e)"
        then show ?thesis using shown t' ta confirm_not_info by simp
      next
        assume "\<exists>flags env. tb = ta @ [Exec (backup_call rt [''snapshot''] flags d env)]
            \<and> (rc = Inr () \<longrightarrow>
                 (\<exists>out. subprocess rt ta (backup_call rt [''snapshot''] flags d env) = Exited 0 out))"
        then obtain flags env where "tb = ta @ [Exec (backup_call rt [''snapshot''] flags d env)]"
          by blast
        then show ?thesis using shown t' ta confirm_not_info confirm_not_backup by simp
      qed
    next
      case created: (Inr u2)
      from Restic_create_cases [OF c dir] created
      obtain flags env out where tb: "tb = ta @ [Exec (backup_call rt [''snapshot''] flags d env)]"
        and ok: "subprocess rt ta (backup_call rt [''snapshot''] flags d env) = Exited 0 out"
        by auto
      let ?b = "Exec (backup_call rt [''snapshot''] flags d env)"
      let ?acc = "accepted (subprocess rt (t @ [?i, ?b]) (confirm_call rt d))"
      have tb': "tb = t @ [?i, ?b]" using tb ta by simp
      have q: "bind (Dialog_truefalse rt (delete_question rt d) ''Delete directory'' ''Cancel'' False) f
             tb = f ?acc (t @ [?i, ?b, ?c])" for f :: "bool \<Rightarrow> unit prog"
        by (simp add: bind_def Dialog_truefalse_result tb')
      have run3: "bind (if \<not> ?acc then raise (RuntimeError ''Action cancelled by user'')
               else bind (lift (Config_get_directory config)) (\<lambda>d. do_rmtree rt d)) ?rest
               (t @ [?i, ?b, ?c]) = (r, t')"
        using run2 c created dir q by (simp add: bind_result)
      show ?thesis
      proof (cases ?acc)
        case False
        then have "r = Inl (RuntimeError ''Action cancelled by user'') \<and> t' = t @ [?i, ?b, ?c]"
          using run3 by auto
        then show ?thesis using ok ta False by auto
      next
        case True
        have "grows (bind (bind (lift (Config_get_directory config)) (\<lambda>d. do_rmtree rt d)) ?rest)"
          by (intro grows_bind grows_lift grows_do_rmtree grows_restore_and_move)
        moreover have "bind (bind (lift (Config_get_directory config)) (\<lambda>d. do_rmtree rt d)) ?rest
               (t @ [?i, ?b, ?c]) = (r, t')"
          using run3 True by simp
        ultimately obtain es where "t' = (t @ [?i, ?b, ?c]) @ es"
          using growsD by blast
        then have "t' = t @ [?i, ?b, ?c] @ es" by simp
        then show ?thesis using ok ta True by blast
      qed
    qed
  qed
qed

theorem snapshot_before_confirmation_witness:
  "restore_steps demo_runtime demo_config [] =
     (Inl (RuntimeError ''Action cancelled by user''),
      [Exec (info_call demo_runtime ''Creating snapshot archive...''),
       Exec (backup_call demo_runtime [''snapshot''] [JStr ''--verbose''] (JStr ''/d'') demo_env),
       Exec (confirm_call demo_runtime (JStr ''/d''))])
   \<and> (\<exists>flags env out rest.
         [Exec (info_call demo_runtime ''Creating snapshot archive...''),
          Exec (backup_call demo_runtime [''snapshot''] [JStr ''--verbose''] (JStr ''/d'') demo_env),
          Exec (confirm_call demo_runtime (JStr ''/d''))]
         = [Exec (info_call demo_runtime ''Creating snapshot archive...''),
            Exec (backup_call demo_runtime [''snapshot''] flags (JStr ''/d'') env),
            Exec (confirm_call demo_runtime (JStr ''/d''))] @ rest
       \<and> subprocess demo_runtime [Exec (info_call demo_runtime ''Creating snapshot archive...'')]
             (backup_call demo_runtime [''snapshot''] flags (JStr ''/d'') env) = Exited 0 out)"
proof -
  let ?i = "Exec (info_call demo_runtime ''Creating snapshot archive...'')"
  let ?b = "Exec (backup_call demo_runtime [''snapshot''] [JStr ''--verbose''] (JStr ''/d'') demo_env)"
  let ?c = "Exec (confirm_call demo_runtime (JStr ''/d''))"
  have it: "py_iter (JArr [JStr ''--verbose'']) = Inr [JStr ''--verbose'']" by simp
  have e: "Config_env demo_runtime demo_config = Inr demo_env"
    by (simp add: demo_config_env)
  have present: "path_exists demo_runtime [] (JStr ''/d'') = Inr True" by simp
  have run: "restore_steps demo_runtime demo_config [] =
      (Inl (RuntimeError ''Action cancelled by user''), [?i, ?b, ?c])"
    using restore_steps_declined [OF demo_config_fields(1) _ _ demo_config_fields(3) it e,
        of "[]" "[]" "Some []"]
    by (simp add: demo_outcomes)
  have shown: "?c \<in> set (drop (length ([] :: event list)) [?i, ?b, ?c])" by simp
  from snapshot_before_confirmation [OF demo_config_fields(1) present run shown]
  show ?thesis using run by simp
qed

end
